theory Spec2Isabelle
  imports Complex_Main "HOL-Library.Log_Nat"
begin

section \<open>Simple3dStitching: the program as a sequence of library calls\<close>

text \<open>
  \<^verbatim>\<open>Simple3dStitching.cpp\<close> is one function, \<^verbatim>\<open>MosMain\<close>, with two helpers. It
  owns no algorithm: it calls the imaging library in a fixed order, branches on three of
  the library's answers (file present, display allocated, registration status) and
  computes one number (the overlap of the second registration). The embedding below is
  therefore a function from the library's answers to the list of calls the program makes,
  in order, together with the value \<^verbatim>\<open>MosMain\<close> returns.

  Conventions.
  \<^item> \<^verbatim>\<open>MIL_INT\<close> values are \<open>int\<close>; no arithmetic of the program comes near 64 bits.
  \<^item> \<^verbatim>\<open>MIL_DOUBLE\<close> values are IEEE-754 binary64 numbers: literals, conversions,
    products and quotients are rounded to nearest, ties to even, as the source's
    arithmetic is.
  \<^item> Printed text drops the line breaks and tabs of the format strings.
  \<^item> Objects held by \<^verbatim>\<open>M_UNIQUE_ID\<close> are released by destructors, not by calls written
    in the source; those releases are not part of the call list.
\<close>

subsection \<open>Values\<close>

text \<open>
  A \<^verbatim>\<open>MIL_DOUBLE\<close> is an IEEE-754 binary64 number: a real on the binary64 grid, an
  infinity or NaN. Zero has no sign here: the one division of the program has a divisor
  converted from an integer, which is +0 when it is zero, and no product of the program has
  a negative factor and a zero factor.
\<close>

datatype mil_double = Finite real | PlusInf | MinusInf | NaN

text \<open>Powers of two with an integer exponent.\<close>

definition pow2 :: "int \<Rightarrow> real" where
  "pow2 e = (if 0 \<le> e then 2 ^ nat e else 1 / 2 ^ nat (- e))"

text \<open>The nearest integer, a tie going to the even one.\<close>

definition round_half_even :: "real \<Rightarrow> int" where
  "round_half_even x =
     (let n = \<lfloor>x\<rfloor>; f = x - of_int n
      in if f < 1 / 2 then n else if 1 / 2 < f then n + 1 else if even n then n else n + 1)"

text \<open>For \<open>0 < x\<close>, the exponent \<open>e\<close> with \<open>2^e \<le> x < 2^(e+1)\<close>.\<close>

definition binade :: "real \<Rightarrow> int" where
  "binade x = (if 1 \<le> x then bitlen \<lfloor>x\<rfloor> - 1 else - bitlen (\<lceil>1 / x\<rceil> - 1))"

text \<open>
  Rounding to binary64, to nearest, ties to even: 53 significant bits, the exponent not
  below -1022 (below it the numbers are subnormal), and no bound above.
\<close>

definition rnd :: "real \<Rightarrow> real" where
  "rnd x =
     (if x = 0 then 0
      else let e = max (binade \<bar>x\<bar>) (- 1022); q = pow2 (e - 52)
           in sgn x * of_int (round_half_even (\<bar>x\<bar> / q)) * q)"

text \<open>The result of an operation whose exact value is \<open>x\<close>: rounded, an infinity on overflow.\<close>

definition to_double :: "real \<Rightarrow> mil_double" where
  "to_double x =
     (let y = rnd x
      in if pow2 1024 \<le> y then PlusInf else if y \<le> - pow2 1024 then MinusInf else Finite y)"

text \<open>The infinity of a sign, NaN when there is none.\<close>

definition signed_inf :: "real \<Rightarrow> mil_double" where
  "signed_inf s = (if 0 < s then PlusInf else if s < 0 then MinusInf else NaN)"

text \<open>\<^verbatim>\<open>(MIL_DOUBLE)n\<close> for an integer, \<^verbatim>\<open>x * y\<close> and \<^verbatim>\<open>x / y\<close>.\<close>

definition of_MIL_INT :: "int \<Rightarrow> mil_double" where
  "of_MIL_INT n = to_double (real_of_int n)"

fun mil_mul :: "mil_double \<Rightarrow> mil_double \<Rightarrow> mil_double" where
  "mil_mul NaN y = NaN"
| "mil_mul x NaN = NaN"
| "mil_mul (Finite a) (Finite b) = to_double (a * b)"
| "mil_mul (Finite a) PlusInf = signed_inf a"
| "mil_mul (Finite a) MinusInf = signed_inf (- a)"
| "mil_mul PlusInf (Finite b) = signed_inf b"
| "mil_mul MinusInf (Finite b) = signed_inf (- b)"
| "mil_mul PlusInf PlusInf = PlusInf"
| "mil_mul PlusInf MinusInf = MinusInf"
| "mil_mul MinusInf PlusInf = MinusInf"
| "mil_mul MinusInf MinusInf = PlusInf"

fun mil_div :: "mil_double \<Rightarrow> mil_double \<Rightarrow> mil_double" where
  "mil_div NaN y = NaN"
| "mil_div x NaN = NaN"
| "mil_div (Finite a) (Finite b) = (if b \<noteq> 0 then to_double (a / b) else signed_inf a)"
| "mil_div (Finite a) PlusInf = Finite 0"
| "mil_div (Finite a) MinusInf = Finite 0"
| "mil_div PlusInf (Finite b) = (if 0 \<le> b then PlusInf else MinusInf)"
| "mil_div MinusInf (Finite b) = (if 0 \<le> b then MinusInf else PlusInf)"
| "mil_div PlusInf PlusInf = NaN"
| "mil_div PlusInf MinusInf = NaN"
| "mil_div MinusInf PlusInf = NaN"
| "mil_div MinusInf MinusInf = NaN"

text \<open>\<^verbatim>\<open>enum { eSource = 0, eTarget, eStitched }\<close>\<close>

definition eSource :: nat where "eSource = 0"
definition eTarget :: nat where "eTarget = 1"
definition eStitched :: nat where "eStitched = 2"

definition NB_POINT_CLOUD :: nat where "NB_POINT_CLOUD = 2"
definition NB_DISPLAY :: nat where "NB_DISPLAY = 3"

text \<open>
  Extraction box definitions and expected target location. The constants are doubles; a
  literal is the double nearest to it and a product is rounded. None of them comes near
  the overflow threshold, so each is the real it denotes.
\<close>

definition EXTRACTION_BOX_SIZE_X :: real where "EXTRACTION_BOX_SIZE_X = rnd 170.0"
definition EXTRACTION_BOX_SIZE_Y :: real where "EXTRACTION_BOX_SIZE_Y = rnd 200.0"
definition EXTRACTION_BOX_SIZE_Z :: real where "EXTRACTION_BOX_SIZE_Z = rnd (- 66)"

definition BOX_OVERLAP :: real where "BOX_OVERLAP = rnd 0.20"
definition BOX_USED_OVERLAP :: real where "BOX_USED_OVERLAP = rnd (rnd 0.9 * BOX_OVERLAP)"

text \<open>Registration context controls. \<^verbatim>\<open>GRID_SIZE\<close> is declared and never used.\<close>

datatype metric = M_POINT_TO_POINT | M_POINT_TO_PLANE

definition GRID_SIZE :: real where "GRID_SIZE = rnd 1.0"
definition DECIMATION_STEP :: int where "DECIMATION_STEP = 8"
definition OVERLAP :: real where "OVERLAP = rnd 95"
definition MAX_ITERATIONS :: int where "MAX_ITERATIONS = 100"
definition RMS_ERROR_RELATIVE_THRESHOLD :: real where "RMS_ERROR_RELATIVE_THRESHOLD = rnd 0.5"
definition ERROR_MINIMIZATION_METRIC :: metric where "ERROR_MINIMIZATION_METRIC = M_POINT_TO_POINT"

text \<open>Display constants.\<close>

definition WINDOWS_OFFSET_X :: int where "WINDOWS_OFFSET_X = 15"
definition WINDOWS_OFFSET_Y :: int where "WINDOWS_OFFSET_Y = 40"
definition DISP_3D_SIZE_X :: int where "DISP_3D_SIZE_X = 384"
definition DISP_3D_SIZE_Y :: int where "DISP_3D_SIZE_Y = 384"

definition DISPLAY_NAMES :: "nat \<Rightarrow> string" where
  "DISPLAY_NAMES d =
     (if d = 0 then ''Reference partial point''
      else if d = 1 then ''Target partial point''
      else ''Stitched point cloud'')"

subsection \<open>The library's answers\<close>

text \<open>The containers of the program: the arrays \<^verbatim>\<open>MilPointCloud\<close> and \<^verbatim>\<open>MilCroppedPointCloud\<close>.\<close>

datatype cloud_ref = MilPointCloud nat | MilCroppedPointCloud nat

text \<open>A box given by \<^verbatim>\<open>M_CENTER_AND_DIMENSION\<close>: centre, then the three dimensions.\<close>

record geo_box =
  box_cx :: real
  box_cy :: real
  box_cz :: real
  box_dx :: real
  box_dy :: real
  box_dz :: real

text \<open>
  The status the library reports for a registration. The numeric values of the macros are
  in \<^verbatim>\<open>mil.h\<close>, which is not part of the repository; \<open>M_OTHER_STATUS\<close> stands for any
  value that none of the five \<^verbatim>\<open>case\<close> labels matches.
\<close>

datatype reg_status =
    M_NOT_INITIALIZED
  | M_NOT_ENOUGH_POINT_PAIRS
  | M_MAX_ITERATIONS_REACHED
  | M_RMS_ERROR_THRESHOLD_REACHED
  | M_RMS_ERROR_RELATIVE_THRESHOLD_REACHED
  | M_OTHER_STATUS int

text \<open>
  Everything the program reads back from the library:
  \<^item> \<open>image_path\<close>, the macro \<^verbatim>\<open>M_IMAGE_PATH\<close> of \<^verbatim>\<open>mil.h\<close>;
  \<^item> \<open>file_exists\<close>, the answer of \<^verbatim>\<open>MappFileOperation\<close> with \<^verbatim>\<open>M_FILE_EXISTS\<close> (line 364);
  \<^item> \<open>disp_alloc d\<close>, the identifier returned by the \<open>d\<close>-th call of \<^verbatim>\<open>M3ddispAlloc\<close>
    (line 384), 0 being \<^verbatim>\<open>M_NULL\<close>;
  \<^item> \<open>number_of_points_valid c\<close>, the number of valid points that \<^verbatim>\<open>M3dimStat\<close> finds in
    cloud \<open>c\<close>; the program reads it for the source cloud into \<^verbatim>\<open>SourceTotalNbPoints\<close>
    (lines 169 and 170);
  \<^item> \<open>stat_number c b\<close>, the number of points of cloud \<open>c\<close> that \<^verbatim>\<open>M3dmetStat\<close> finds at a
    signed distance of at most 0 to the box \<open>b\<close>; the program reads it for the source
    cloud and the box then in \<^verbatim>\<open>MilBox\<close> into \<^verbatim>\<open>SourceOverlapNbOfPoints\<close> (lines 246 and
    247);
  \<^item> \<open>timer_read\<close>, read into \<^verbatim>\<open>ComputationTime\<close> (line 270);
  \<^item> \<open>status_registration_element\<close>, read into \<^verbatim>\<open>RegistrationStatus\<close> (line 276);
  \<^item> \<open>rms_error\<close>, read into \<^verbatim>\<open>RegistrationRmsError\<close> (line 298);
  \<^item> \<open>range_size_x i\<close> and \<open>range_size_y i\<close>, the size of the range component of input
    cloud \<open>i\<close> (lines 316 and 317).
\<close>

record sdk =
  image_path :: string
  file_exists :: "string \<Rightarrow> bool"
  disp_alloc :: "nat \<Rightarrow> int"
  number_of_points_valid :: "cloud_ref \<Rightarrow> int"
  stat_number :: "cloud_ref \<Rightarrow> geo_box \<Rightarrow> int"
  timer_read :: mil_double
  status_registration_element :: reg_status
  rms_error :: mil_double
  range_size_x :: "nat \<Rightarrow> int"
  range_size_y :: "nat \<Rightarrow> int"

definition FILE_SOURCE_POINT_CLOUD :: "sdk \<Rightarrow> nat \<Rightarrow> string" where
  "FILE_SOURCE_POINT_CLOUD s i =
     (if i = 0 then image_path s @ ''/Simple3dStitching/StitchReference.ply''
      else image_path s @ ''/Simple3dStitching/StitchTarget.ply'')"

subsection \<open>Calls\<close>

datatype reg_obj = MilRegistrationContext | MilRegistrationResult

datatype component = M_COMPONENT_RANGE | M_COMPONENT_REFLECTANCE

datatype size_axis = M_SIZE_X | M_SIZE_Y

datatype rgb = M_RGB888 nat nat nat

datatype fmt_arg = ArgInt int | ArgDouble mil_double

datatype timer_op = M_TIMER_RESET | M_TIMER_READ

datatype os_call =
    MosPrintf string "fmt_arg list"
  | MosGetch
  | MappAlloc
  | MappFileOperation string
  | MappControl bool
  | MappTimer timer_op
  | Exit int

datatype disp_control =
    M_WINDOW_INITIAL_POSITION_X int
  | M_WINDOW_INITIAL_POSITION_Y int
  | M_SIZE size_axis int
  | M_TITLE string
  | M_UPDATE bool

datatype gra_label = CloudLabel | MilBoxGraphics

datatype gra_control =
    M_COLOR_USE_LUT bool
  | M_COLOR_COMPONENT component
  | M_COLOR_COMPONENT_BAND int
  | M_COLOR_WHITE
  | M_APPEARANCE_WIREFRAME

text \<open>
  Display and graphics calls; the first argument is the identifier of the display (the
  graphic list is the one inquired from that display).
\<close>

datatype disp_call =
    M3ddispAlloc int
  | M3ddispControl int disp_control
  | M3ddispSetView int
  | M3ddispSelect int cloud_ref
  | M3ddispInquire int
  | M3dgraControl int gra_label gra_control
  | M3dgeoDraw3d int
  | M3dgraBox int real real real real real real
  | M3ddispFree int

text \<open>
  Buffer calls. \<open>MbufClear c k v\<close> clears the buffer that \<open>MbufAllocComponent\<close> returned
  for component \<open>k\<close> of container \<open>c\<close>.
\<close>

datatype buf_call =
    MbufAllocContainer cloud_ref
  | MbufRestore string cloud_ref
  | MbufFreeComponent cloud_ref component
  | MbufInquireContainer cloud_ref component size_axis
  | MbufAllocComponent cloud_ref int int int component
  | MbufClear cloud_ref component rgb

datatype reg_index = M_DEFAULT | M_ALL

datatype reg_control =
    M_SUBSAMPLE bool
  | M_MAX_ITERATIONS int
  | M_RMS_ERROR_RELATIVE_THRESHOLD real
  | M_ERROR_MINIMIZATION_METRIC metric
  | M_OVERLAP mil_double

datatype reg_result_type = M_STATUS_REGISTRATION_ELEMENT | M_RMS_ERROR

datatype stat_condition = M_LESS_OR_EQUAL

text \<open>
  Processing calls. \<open>M3dgeoBox\<close> writes the one box object \<^verbatim>\<open>MilBox\<close>; \<open>M3dimCrop\<close>,
  \<open>M3dmetStat\<close> and \<open>M3dgeoDraw3d\<close> read it.
\<close>

datatype proc_call =
    M3dimAllocResult
  | M3dimStat cloud_ref
  | M3dimGetResult
  | M3dgeoAlloc
  | M3dgeoBox geo_box
  | M3dregAlloc
  | M3dregAllocResult
  | M3dregInquire
  | M3dimControl size_axis int
  | M3dregControl reg_index reg_control
  | M3dimCrop cloud_ref cloud_ref
  | M3dregCalculate "cloud_ref list"
  | M3dmetAllocResult
  | M3dmetStat cloud_ref stat_condition real
  | M3dmetGetResult
  | M3dregSetLocation nat nat reg_obj
  | M3dregGetResult nat reg_result_type
  | M3dregMerge reg_obj "cloud_ref list" cloud_ref
  | M3dregFree reg_obj

datatype event = Os os_call | Disp disp_call | Buf buf_call | Proc proc_call

record run =
  trace :: "event list"
  exit_code :: int

subsection \<open>The helpers\<close>

definition PrintHeader :: "event list" where
  "PrintHeader =
     [Os (MosPrintf ''[EXAMPLE NAME]'' []),
      Os (MosPrintf ''Simple3dStiching'' []),
      Os (MosPrintf ''[SYNOPSIS]'' []),
      Os (MosPrintf ''This example demonstrates how to use the 3D surface registration '' []),
      Os (MosPrintf ''to register two partial point clouds of a 3D object and '' []),
      Os (MosPrintf ''stitch them into a single complete point cloud.'' []),
      Os (MosPrintf [] []),
      Os (MosPrintf ''[MODULES USED]'' []),
      Os (MosPrintf ''Modules used: 3D Registration, Buffer, 3D Image Processing, 3D Display, 3D Graphics, 3D Geometry and 3D Metrology.'' [])]"

text \<open>
  \<^verbatim>\<open>CheckForRequiredMILFile\<close>: asks the library whether the file exists; when it does
  not, prints two messages and waits for a key. Returns whether the file is present.
\<close>

definition CheckForRequiredMILFile :: "sdk \<Rightarrow> string \<Rightarrow> event list \<times> bool" where
  "CheckForRequiredMILFile s FileName =
     (let FilePresent = file_exists s FileName
      in (Os (MappFileOperation FileName) #
          (if \<not> FilePresent
           then [Os (MosPrintf ''The footage needed to run this example is missing. You need to obtain and apply a separate specific update to have it.'' []),
                 Os (MosPrintf ''Press <Enter> to end.'' []),
                 Os MosGetch]
           else []),
          FilePresent))"

text \<open>
  \<^verbatim>\<open>Alloc3dDisplayId\<close>, called for the \<open>d\<close>-th display: \<open>None\<close> is the path that ends in
  \<^verbatim>\<open>exit(0)\<close>, \<open>Some id\<close> the identifier returned.
\<close>

definition Alloc3dDisplayId :: "sdk \<Rightarrow> nat \<Rightarrow> event list \<times> int option" where
  "Alloc3dDisplayId s d =
     (let MilDisplay3D = disp_alloc s d;
          es = [Os (MappControl False), Disp (M3ddispAlloc MilDisplay3D), Os (MappControl True)]
      in if MilDisplay3D = 0
         then (es @ [Os (MosPrintf ''The current system does not support the 3D display. Press any key to exit.'' []),
                     Os MosGetch,
                     Os (Exit 0)],
               None)
         else (es, Some MilDisplay3D))"

subsection \<open>The stages of \<^verbatim>\<open>MosMain\<close>\<close>

text \<open>Lines 114 to 127: the containers are allocated and the two clouds restored.\<close>

definition allocate_and_restore :: "sdk \<Rightarrow> event list" where
  "allocate_and_restore s =
     [Buf (MbufAllocContainer (MilPointCloud eStitched))]
     @ map (\<lambda>i. Buf (MbufAllocContainer (MilCroppedPointCloud i))) [0..<NB_POINT_CLOUD]
     @ [Os (MosPrintf ''The reference and target point clouds are being restored...'' []),
        Buf (MbufRestore (FILE_SOURCE_POINT_CLOUD s 0) (MilPointCloud eSource)),
        Buf (MbufRestore (FILE_SOURCE_POINT_CLOUD s 1) (MilPointCloud eTarget)),
        Os (MosPrintf ''done.'' [])]"

text \<open>Lines 140 to 148: the controls set on display \<open>d\<close> once it is allocated.\<close>

definition display_controls :: "int \<Rightarrow> nat \<Rightarrow> event list" where
  "display_controls MilDisplay_d d =
     [Disp (M3ddispControl MilDisplay_d
              (M_WINDOW_INITIAL_POSITION_X (int d * (WINDOWS_OFFSET_X + DISP_3D_SIZE_X)))),
      Disp (M3ddispControl MilDisplay_d (M_SIZE M_SIZE_X DISP_3D_SIZE_X)),
      Disp (M3ddispControl MilDisplay_d (M_SIZE M_SIZE_Y DISP_3D_SIZE_Y)),
      Disp (M3ddispControl MilDisplay_d (M_TITLE (DISPLAY_NAMES d))),
      Disp (M3ddispSetView MilDisplay_d)]"

text \<open>
  Lines 135 to 149: the display loop. It stops at the first allocation that fails, since
  \<^verbatim>\<open>Alloc3dDisplayId\<close> does not return then. The result is the array \<^verbatim>\<open>MilDisplay\<close>.
\<close>

fun init_displays :: "sdk \<Rightarrow> nat list \<Rightarrow> event list \<times> int list option" where
  "init_displays s [] = ([], Some [])"
| "init_displays s (d # ds) =
     (case Alloc3dDisplayId s d of
        (es, None) \<Rightarrow> (es, None)
      | (es, Some MilDisplay_d) \<Rightarrow>
          (case init_displays s ds of
             (es', r) \<Rightarrow> (es @ display_controls MilDisplay_d d @ es', map_option ((#) MilDisplay_d) r)))"

text \<open>Lines 152 to 192: the two clouds and the first box are shown.\<close>

definition initial_box :: geo_box where
  "initial_box =
     \<lparr>box_cx = 0, box_cy = 0, box_cz = 0,
      box_dx = EXTRACTION_BOX_SIZE_X,
      box_dy = rnd (EXTRACTION_BOX_SIZE_Y * BOX_USED_OVERLAP),
      box_dz = EXTRACTION_BOX_SIZE_Z\<rparr>"

definition show_inputs :: "int list \<Rightarrow> event list" where
  "show_inputs MilDisplay =
     [Disp (M3ddispControl (MilDisplay ! eStitched)
              (M_WINDOW_INITIAL_POSITION_X (WINDOWS_OFFSET_X div 2 + DISP_3D_SIZE_X div 2))),
      Disp (M3ddispControl (MilDisplay ! eStitched)
              (M_WINDOW_INITIAL_POSITION_Y (WINDOWS_OFFSET_Y + DISP_3D_SIZE_Y)))]
     @ concat (map (\<lambda>p.
         [Disp (M3ddispSelect (MilDisplay ! p) (MilPointCloud p)),
          Disp (M3ddispInquire (MilDisplay ! p)),
          Disp (M3dgraControl (MilDisplay ! p) CloudLabel (M_COLOR_USE_LUT True)),
          Disp (M3dgraControl (MilDisplay ! p) CloudLabel (M_COLOR_COMPONENT M_COMPONENT_RANGE)),
          Disp (M3dgraControl (MilDisplay ! p) CloudLabel (M_COLOR_COMPONENT_BAND 2))])
         [0..<NB_POINT_CLOUD])
     @ [Proc M3dimAllocResult,
        Proc (M3dimStat (MilPointCloud eSource)),
        Proc M3dimGetResult,
        Proc M3dgeoAlloc,
        Proc (M3dgeoBox initial_box)]
     @ concat (map (\<lambda>i.
         [Disp (M3ddispInquire (MilDisplay ! i)),
          Disp (M3dgeoDraw3d (MilDisplay ! i)),
          Disp (M3dgraControl (MilDisplay ! i) MilBoxGraphics M_COLOR_WHITE),
          Disp (M3dgraControl (MilDisplay ! i) MilBoxGraphics M_APPEARANCE_WIREFRAME)])
         [0..<NB_POINT_CLOUD])
     @ [Os (MosPrintf ''The object's reference and target, are displayed using pseudo colors. A white box is displayed to show the expected common overlap region for both partial point clouds.'' []),
        Os (MosPrintf ''Press <Enter> to perform the registration.'' []),
        Os MosGetch]"

text \<open>Lines 197 to 214: the registration context and its controls.\<close>

definition registration_setup :: "event list" where
  "registration_setup =
     [Os (MosPrintf ''Processing.'' []),
      Proc M3dregAlloc,
      Proc M3dregAllocResult,
      Proc M3dregInquire,
      Proc (M3dimControl M_SIZE_X DECIMATION_STEP),
      Proc (M3dimControl M_SIZE_Y DECIMATION_STEP),
      Proc (M3dregControl M_DEFAULT (M_SUBSAMPLE True)),
      Proc (M3dregControl M_DEFAULT (M_MAX_ITERATIONS MAX_ITERATIONS)),
      Proc (M3dregControl M_DEFAULT (M_RMS_ERROR_RELATIVE_THRESHOLD RMS_ERROR_RELATIVE_THRESHOLD)),
      Proc (M3dregControl M_DEFAULT (M_ERROR_MINIMIZATION_METRIC ERROR_MINIMIZATION_METRIC))]"

text \<open>Lines 221 to 225 and 250 to 255: both clouds are cropped by \<^verbatim>\<open>MilBox\<close>.\<close>

definition crop_loop :: "event list" where
  "crop_loop =
     concat (map (\<lambda>p.
       [Proc (M3dimCrop (MilPointCloud p) (MilCroppedPointCloud p)),
        Os (MosPrintf ''.'' [])])
       [0..<NB_POINT_CLOUD])"

text \<open>Lines 227 to 235: the pre-registration. \<^verbatim>\<open>MilCroppedPointCloud\<close> is the whole array.\<close>

definition MilCroppedPointCloud_array :: "cloud_ref list" where
  "MilCroppedPointCloud_array = map MilCroppedPointCloud [0..<NB_POINT_CLOUD]"

definition MilPreregistration :: reg_obj where
  "MilPreregistration = MilRegistrationResult"

definition pre_registration :: "event list" where
  "pre_registration =
     crop_loop
     @ [Os (MappTimer M_TIMER_RESET),
        Proc (M3dregControl M_ALL (M_OVERLAP (Finite OVERLAP))),
        Proc (M3dregCalculate MilCroppedPointCloud_array),
        Os (MosPrintf ''.'' [])]"

text \<open>Lines 237 to 271: the second box, the overlap of the full model, the second registration.\<close>

definition refinement_box :: geo_box where
  "refinement_box =
     \<lparr>box_cx = 0, box_cy = 0, box_cz = 0,
      box_dx = EXTRACTION_BOX_SIZE_X,
      box_dy = rnd (EXTRACTION_BOX_SIZE_Y * BOX_OVERLAP),
      box_dz = EXTRACTION_BOX_SIZE_Z\<rparr>"

definition FullModelOverlap :: "sdk \<Rightarrow> mil_double" where
  "FullModelOverlap s =
     (let SourceTotalNbPoints = number_of_points_valid s (MilPointCloud eSource);
          SourceOverlapNbOfPoints = stat_number s (MilPointCloud eSource) refinement_box
      in mil_mul (mil_div (of_MIL_INT SourceOverlapNbOfPoints) (of_MIL_INT SourceTotalNbPoints))
           (Finite OVERLAP))"

definition refinement :: "sdk \<Rightarrow> event list" where
  "refinement s =
     [Proc (M3dgeoBox refinement_box),
      Proc M3dmetAllocResult,
      Proc (M3dmetStat (MilPointCloud eSource) M_LESS_OR_EQUAL 0),
      Proc M3dmetGetResult]
     @ crop_loop
     @ [Proc (M3dregControl M_ALL (M_OVERLAP (FullModelOverlap s))),
        Proc (M3dregSetLocation eTarget eSource MilPreregistration),
        Os (MosPrintf ''.'' []),
        Proc (M3dregCalculate MilCroppedPointCloud_array),
        Os (MosPrintf ''.'' []),
        Os (MappTimer M_TIMER_READ),
        Os (MosPrintf ''done'' []),
        Os (MosPrintf ''The 3D stitching between the two partial point clouds has been performed with the help of the points within the expected common overlap regions.'' [])]"

text \<open>Lines 276 to 306: the status is read and a message chosen by it is printed.\<close>

definition report_status :: "sdk \<Rightarrow> event list" where
  "report_status s =
     Proc (M3dregGetResult eTarget M_STATUS_REGISTRATION_ELEMENT) #
     (case status_registration_element s of
        M_NOT_INITIALIZED \<Rightarrow>
          [Os (MosPrintf ''Registration failed: the registration result is not initialized.'' [])]
      | M_NOT_ENOUGH_POINT_PAIRS \<Rightarrow>
          [Os (MosPrintf ''Registration failed: point clouds are not overlapping.'' [])]
      | M_MAX_ITERATIONS_REACHED \<Rightarrow>
          [Os (MosPrintf ''Registration reached the maximum number of iterations allowed (%d) in %.2f ms. Resulting fixture may or may not be valid.''
                 [ArgInt MAX_ITERATIONS, ArgDouble (mil_mul (timer_read s) (Finite 1000))])]
      | M_RMS_ERROR_THRESHOLD_REACHED \<Rightarrow>
          [Proc (M3dregGetResult eTarget M_RMS_ERROR),
           Os (MosPrintf ''The registration of the two partial point clouds succeeded in %.2f ms with a final RMS error of %f mm.''
                 [ArgDouble (mil_mul (timer_read s) (Finite 1000)), ArgDouble (rms_error s)])]
      | M_RMS_ERROR_RELATIVE_THRESHOLD_REACHED \<Rightarrow>
          [Proc (M3dregGetResult eTarget M_RMS_ERROR),
           Os (MosPrintf ''The registration of the two partial point clouds succeeded in %.2f ms with a final RMS error of %f mm.''
                 [ArgDouble (mil_mul (timer_read s) (Finite 1000)), ArgDouble (rms_error s)])]
      | M_OTHER_STATUS v \<Rightarrow>
          [Os (MosPrintf ''Unknown registration status.'' [])])"

text \<open>Lines 312 to 322: the reflectance of each input cloud is replaced by one colour.\<close>

definition cloud_color :: "nat \<Rightarrow> rgb" where
  "cloud_color i = (if i = 0 then M_RGB888 135 165 235 else M_RGB888 75 125 215)"

definition color_cloud :: "sdk \<Rightarrow> int list \<Rightarrow> nat \<Rightarrow> event list" where
  "color_cloud s MilDisplay i =
     (let SizeX = range_size_x s i;
          SizeY = range_size_y s i
      in [Disp (M3ddispControl (MilDisplay ! i) (M_UPDATE False)),
          Buf (MbufFreeComponent (MilPointCloud i) M_COMPONENT_REFLECTANCE),
          Buf (MbufInquireContainer (MilPointCloud i) M_COMPONENT_RANGE M_SIZE_X),
          Buf (MbufInquireContainer (MilPointCloud i) M_COMPONENT_RANGE M_SIZE_Y),
          Buf (MbufAllocComponent (MilPointCloud i) 3 SizeX SizeY M_COMPONENT_REFLECTANCE),
          Buf (MbufClear (MilPointCloud i) M_COMPONENT_REFLECTANCE (cloud_color i)),
          Disp (M3ddispControl (MilDisplay ! i) (M_UPDATE True))])"

definition add_color :: "sdk \<Rightarrow> int list \<Rightarrow> event list" where
  "add_color s MilDisplay = concat (map (color_cloud s MilDisplay) [0..<NB_POINT_CLOUD])"

text \<open>Lines 324 to 344: the merge, and the display of its result.\<close>

definition merge_call :: event where
  "merge_call =
     Proc (M3dregMerge MilRegistrationResult (map MilPointCloud [0..<2]) (MilPointCloud eStitched))"

definition show_stitched :: "int list \<Rightarrow> event list" where
  "show_stitched MilDisplay =
     [Disp (M3ddispSelect (MilDisplay ! eStitched) (MilPointCloud eStitched)),
      Disp (M3ddispInquire (MilDisplay ! eStitched)),
      Disp (M3dgraBox (MilDisplay ! eStitched)
              (rnd (- 0.5 * EXTRACTION_BOX_SIZE_X))
              (rnd (rnd (- 0.5 * EXTRACTION_BOX_SIZE_Y) * BOX_USED_OVERLAP))
              (rnd (0.5 * EXTRACTION_BOX_SIZE_Z))
              (rnd (0.5 * EXTRACTION_BOX_SIZE_X))
              (rnd (rnd (0.5 * EXTRACTION_BOX_SIZE_Y) * BOX_USED_OVERLAP))
              (rnd (- 0.5 * EXTRACTION_BOX_SIZE_Z))),
      Disp (M3dgraControl (MilDisplay ! eStitched) MilBoxGraphics M_COLOR_WHITE),
      Disp (M3dgraControl (MilDisplay ! eStitched) MilBoxGraphics M_APPEARANCE_WIREFRAME),
      Os (MosPrintf ''The two point clouds have been stitched into a single point cloud. The resulting stitched point cloud is displayed. A white rectangular box show the transformed overlap region.'' []),
      Os (MosPrintf ''Press <Enter> to end.'' []),
      Os MosGetch]"

text \<open>Lines 348 to 355: the objects the program frees itself.\<close>

definition free_objects :: "int list \<Rightarrow> event list" where
  "free_objects MilDisplay =
     [Proc (M3dregFree MilRegistrationContext),
      Proc (M3dregFree MilRegistrationResult)]
     @ concat (map (\<lambda>d. if MilDisplay ! d \<noteq> 0 then [Disp (M3ddispFree (MilDisplay ! d))] else [])
         [0..<NB_DISPLAY])"

subsection \<open>\<^verbatim>\<open>MosMain\<close>\<close>

text \<open>Everything after the displays are allocated (lines 152 to 355).\<close>

definition pipeline :: "sdk \<Rightarrow> int list \<Rightarrow> event list" where
  "pipeline s MilDisplay =
     show_inputs MilDisplay
     @ registration_setup
     @ pre_registration
     @ refinement s
     @ report_status s
     @ add_color s MilDisplay
     @ [merge_call]
     @ show_stitched MilDisplay
     @ free_objects MilDisplay"

definition MosMain :: "sdk \<Rightarrow> run" where
  "MosMain s =
     (let t0 = PrintHeader @ [Os MappAlloc]
      in case CheckForRequiredMILFile s (FILE_SOURCE_POINT_CLOUD s 0) of
           (t1, present) \<Rightarrow>
             if \<not> present then \<lparr>trace = t0 @ t1, exit_code = - 1\<rparr>
             else
               (case init_displays s [0..<NB_DISPLAY] of
                  (t3, None) \<Rightarrow>
                    \<lparr>trace = t0 @ t1 @ allocate_and_restore s @ t3, exit_code = 0\<rparr>
                | (t3, Some MilDisplay) \<Rightarrow>
                    \<lparr>trace = t0 @ t1 @ allocate_and_restore s @ t3 @ pipeline s MilDisplay,
                     exit_code = 0\<rparr>))"

subsection \<open>Reading a call list\<close>

text \<open>
  The path condition of a run that gets past the file check and the three display
  allocations (lines 104 and 135 to 138).
\<close>

definition reaches_pipeline :: "sdk \<Rightarrow> bool" where
  "reaches_pipeline s \<longleftrightarrow>
     file_exists s (FILE_SOURCE_POINT_CLOUD s 0) \<and> (\<forall>d \<in> set [0..<NB_DISPLAY]. disp_alloc s d \<noteq> 0)"

text \<open>The kinds of call the statements below select from a call list.\<close>

datatype call_kind =
    KBox | KCrop | KCount | KStat | KControl | KOverlap | KCalculate | KSetLocation | KStatus
  | KMerge | KOther

fun kind_of :: "event \<Rightarrow> call_kind" where
  "kind_of (Proc (M3dgeoBox b)) = KBox"
| "kind_of (Proc (M3dimCrop src dst)) = KCrop"
| "kind_of (Proc (M3dimStat c)) = KCount"
| "kind_of (Proc (M3dmetStat c cond v)) = KStat"
| "kind_of (Proc (M3dimControl a v)) = KControl"
| "kind_of (Proc (M3dregControl i (M_OVERLAP v))) = KOverlap"
| "kind_of (Proc (M3dregControl i c)) = KControl"
| "kind_of (Proc (M3dregCalculate cs)) = KCalculate"
| "kind_of (Proc (M3dregSetLocation t r loc)) = KSetLocation"
| "kind_of (Proc (M3dregGetResult i M_STATUS_REGISTRATION_ELEMENT)) = KStatus"
| "kind_of (Proc (M3dregMerge r cs dst)) = KMerge"
| "kind_of _ = KOther"

definition keep :: "call_kind list \<Rightarrow> event list \<Rightarrow> event list" where
  "keep ks es = filter (\<lambda>e. kind_of e \<in> set ks) es"

text \<open>
  \<^verbatim>\<open>MilBox\<close> is one object, written twice by \<open>M3dgeoBox\<close>. \<open>box_reads b es\<close> pairs every
  processing call of \<open>es\<close> that reads the box (a crop or the metrology statistic) with the
  box it finds there, \<open>b\<close> being the content before \<open>es\<close>.
\<close>

fun box_reads :: "geo_box option \<Rightarrow> event list \<Rightarrow> (event \<times> geo_box option) list" where
  "box_reads b [] = []"
| "box_reads b (Proc (M3dgeoBox b') # es) = box_reads (Some b') es"
| "box_reads b (e # es) =
     (if kind_of e = KCrop \<or> kind_of e = KStat then (e, b) # box_reads b es
      else box_reads b es)"

text \<open>
  The registration result is one object too: \<open>M3dregCalculate\<close> writes it and
  \<open>M3dregSetLocation\<close> reads it. \<open>location_reads n es\<close> gives, for every
  \<open>M3dregSetLocation\<close> of \<open>es\<close>, the number of registrations calculated before it, \<open>n\<close> being
  the number before \<open>es\<close>.
\<close>

fun location_reads :: "nat \<Rightarrow> event list \<Rightarrow> nat list" where
  "location_reads n [] = []"
| "location_reads n (e # es) =
     (if kind_of e = KCalculate then location_reads (Suc n) es
      else if kind_of e = KSetLocation then n # location_reads n es
      else location_reads n es)"

text \<open>
  What one turn of the display loop contributes when the allocation succeeds, and the
  array \<^verbatim>\<open>MilDisplay\<close> when all three do.
\<close>

definition display_setup :: "sdk \<Rightarrow> nat \<Rightarrow> event list" where
  "display_setup s d =
     [Os (MappControl False), Disp (M3ddispAlloc (disp_alloc s d)), Os (MappControl True)]
     @ display_controls (disp_alloc s d) d"

definition MilDisplay_ids :: "sdk \<Rightarrow> int list" where
  "MilDisplay_ids s = map (disp_alloc s) [0..<NB_DISPLAY]"

subsection \<open>Sample answers of the library\<close>

definition demo_sdk :: sdk where
  "demo_sdk =
     \<lparr>image_path = ''images'',
      file_exists = (\<lambda>f. True),
      disp_alloc = (\<lambda>d. int d + 1),
      number_of_points_valid = (\<lambda>c. 1000),
      stat_number = (\<lambda>c b. 200),
      timer_read = Finite 0.25,
      status_registration_element = M_RMS_ERROR_RELATIVE_THRESHOLD_REACHED,
      rms_error = Finite (rnd 0.1),
      range_size_x = (\<lambda>i. 640),
      range_size_y = (\<lambda>i. 480)\<rparr>"

definition no_overlap_sdk :: sdk where
  "no_overlap_sdk = demo_sdk\<lparr>status_registration_element := M_NOT_ENOUGH_POINT_PAIRS\<rparr>"

definition empty_source_sdk :: sdk where
  "empty_source_sdk = demo_sdk\<lparr>number_of_points_valid := (\<lambda>c. 0), stat_number := (\<lambda>c b. 0)\<rparr>"

definition third_sdk :: sdk where
  "third_sdk = demo_sdk\<lparr>number_of_points_valid := (\<lambda>c. 3), stat_number := (\<lambda>c b. 1)\<rparr>"

definition no_display_sdk :: sdk where
  "no_display_sdk = demo_sdk\<lparr>disp_alloc := (\<lambda>d. if d = 1 then 0 else int d + 1)\<rparr>"

definition missing_file_sdk :: sdk where
  "missing_file_sdk = demo_sdk\<lparr>file_exists := (\<lambda>f. False)\<rparr>"

text \<open>The call list of the run that ends at the file check (lines 104 to 107, 365 to 373).\<close>

definition missing_input :: "sdk \<Rightarrow> event list" where
  "missing_input s =
     PrintHeader
     @ [Os MappAlloc,
        Os (MappFileOperation (FILE_SOURCE_POINT_CLOUD s 0)),
        Os (MosPrintf ''The footage needed to run this example is missing. You need to obtain and apply a separate specific update to have it.'' []),
        Os (MosPrintf ''Press <Enter> to end.'' []),
        Os MosGetch]"

section \<open>What the library's calls stand for\<close>

text \<open>
  The library is closed source and no part of the repository: of \<^verbatim>\<open>M3dimCrop\<close>,
  \<^verbatim>\<open>M3dregMerge\<close> and the buffer calls only the calls are in the source. The definitions of
  this section give them the meaning the specification gives them; every statement that
  rests on one of them says so.
\<close>

subsection \<open>Point clouds, boxes and results\<close>

type_synonym vec3 = "real \<times> real \<times> real"

text \<open>
  Modelled from the spec: the point cloud of section 3, which the library keeps in a
  container. An ordered sequence of points; each point has a 3D position and an optional
  attribute (reflectance or colour). Only the unorganized layout is modelled: the program
  restores unorganized clouds.
\<close>

record point =
  pt_position :: vec3
  pt_attribute :: "rgb option"

type_synonym point_cloud = "point list"

text \<open>
  Modelled from the spec: the bounding box of section 3, an axis-aligned region given by
  its centre and its full extent on each axis; a point on the boundary is inside. What a
  negative extent means is missing from the spec: it is read as the same interval as its
  absolute value, which is how the source itself reads \<^verbatim>\<open>EXTRACTION_BOX_SIZE_Z = -66\<close>
  when it draws the box from \<^verbatim>\<open>DRAW_BOX_MIN_Z = -33\<close> to \<^verbatim>\<open>DRAW_BOX_MAX_Z = 33\<close>.
\<close>

definition inside_box :: "geo_box \<Rightarrow> vec3 \<Rightarrow> bool" where
  "inside_box b p =
     (case p of (x, y, z) \<Rightarrow>
        \<bar>x - box_cx b\<bar> \<le> \<bar>box_dx b\<bar> / 2 \<and>
        \<bar>y - box_cy b\<bar> \<le> \<bar>box_dy b\<bar> / 2 \<and>
        \<bar>z - box_cz b\<bar> \<le> \<bar>box_dz b\<bar> / 2)"

text \<open>
  Modelled from the spec: \<^verbatim>\<open>Crop(cloud, box)\<close> of section 4.1, the contract given to the
  library's \<^verbatim>\<open>M3dimCrop\<close>, whose code is missing. The output is a new cloud holding the
  points whose position is inside the box or on its boundary, in their order.
\<close>

definition Crop :: "point_cloud \<Rightarrow> geo_box \<Rightarrow> point_cloud" where
  "Crop cloud b = filter (\<lambda>p. inside_box b (pt_position p)) cloud"

text \<open>
  Modelled from the spec: the rigid transform of section 3, a rotation (three rows) and a
  translation, and its application to a position.
\<close>

record rigid_transform =
  rot_x :: vec3
  rot_y :: vec3
  rot_z :: vec3
  translation :: vec3

definition dot :: "vec3 \<Rightarrow> vec3 \<Rightarrow> real" where
  "dot a b = (case a of (ax, ay, az) \<Rightarrow> case b of (bx, by, bz) \<Rightarrow> ax * bx + ay * by + az * bz)"

definition apply_transform :: "rigid_transform \<Rightarrow> vec3 \<Rightarrow> vec3" where
  "apply_transform t p =
     (case translation t of (tx, ty, tz) \<Rightarrow>
        (dot (rot_x t) p + tx, dot (rot_y t) p + ty, dot (rot_z t) p + tz))"

definition move_point :: "rigid_transform \<Rightarrow> point \<Rightarrow> point" where
  "move_point t p = p\<lparr>pt_position := apply_transform t (pt_position p)\<rparr>"

text \<open>
  Modelled from the spec: the registration result of section 3 and the closed set of
  outcomes of sections 4.3 and 7.
\<close>

datatype outcome =
    NotInitialized
  | NotEnoughPointPairs
  | MaxIterationsReached
  | RmsThresholdReached
  | RmsRelativeThresholdReached

record registration_result =
  res_status :: outcome
  res_transform :: rigid_transform
  res_rms_error :: real
  res_iterations :: nat

datatype merge_error = NoValidTransform

text \<open>
  Modelled from the spec: \<^verbatim>\<open>Merge(result, fixedCloud, movingCloud)\<close> of section 4.4, the
  contract given to the library's \<^verbatim>\<open>M3dregMerge\<close>, whose code is missing. It fails when
  the status is \<^verbatim>\<open>NotInitialized\<close> or \<^verbatim>\<open>NotEnoughPointPairs\<close>; otherwise it applies the
  transform to every point of the moving cloud and concatenates the fixed points and the
  moved points, attributes kept, nothing removed.
\<close>

definition Merge :: "registration_result \<Rightarrow> point_cloud \<Rightarrow> point_cloud \<Rightarrow> merge_error + point_cloud" where
  "Merge result fixedCloud movingCloud =
     (if res_status result = NotInitialized \<or> res_status result = NotEnoughPointPairs
      then Inl NoValidTransform
      else Inr (fixedCloud @ map (move_point (res_transform result)) movingCloud))"

subsection \<open>Containers and their components\<close>

text \<open>
  Modelled from the spec: the library's containers and the buffer calls of lines 315 to 320
  that change them, whose code is missing. The spec says of a cloud only that it carries
  positions and optional per-point attributes; a container is taken to map a component to
  a buffer, a buffer to have a number of bands, a size and its pixels, and every call to
  do what its name and arguments say: freeing a component removes it, allocating one adds
  a buffer whose pixels are not yet written, clearing a buffer writes one value to all its
  pixels, an inquiry changes nothing.
\<close>

datatype pixels = Coordinates "vec3 list" | Colors "rgb list" | Uninitialised | Uniform rgb

record buffer =
  buf_bands :: int
  buf_size_x :: int
  buf_size_y :: int
  buf_pixels :: pixels

type_synonym container = "component \<Rightarrow> buffer option"

type_synonym store = "cloud_ref \<Rightarrow> container"

fun exec_buf :: "(string \<Rightarrow> container) \<Rightarrow> buf_call \<Rightarrow> store \<Rightarrow> store" where
  "exec_buf disk (MbufAllocContainer c) \<sigma> = \<sigma>(c := Map.empty)"
| "exec_buf disk (MbufRestore f c) \<sigma> = \<sigma>(c := disk f)"
| "exec_buf disk (MbufFreeComponent c k) \<sigma> = \<sigma>(c := (\<sigma> c)(k := None))"
| "exec_buf disk (MbufInquireContainer c k a) \<sigma> = \<sigma>"
| "exec_buf disk (MbufAllocComponent c b x y k) \<sigma> =
     \<sigma>(c := (\<sigma> c)(k \<mapsto> \<lparr>buf_bands = b, buf_size_x = x, buf_size_y = y, buf_pixels = Uninitialised\<rparr>))"
| "exec_buf disk (MbufClear c k v) \<sigma> =
     \<sigma>(c := (\<sigma> c)(k := map_option (\<lambda>b. b\<lparr>buf_pixels := Uniform v\<rparr>) (\<sigma> c k)))"

text \<open>The buffer calls of a call list, in order, and their effect on a store.\<close>

fun buf_calls :: "event list \<Rightarrow> buf_call list" where
  "buf_calls [] = []"
| "buf_calls (Buf b # es) = b # buf_calls es"
| "buf_calls (e # es) = buf_calls es"

definition run_buf :: "(string \<Rightarrow> container) \<Rightarrow> event list \<Rightarrow> store \<Rightarrow> store" where
  "run_buf disk es \<sigma> = fold (exec_buf disk) (buf_calls es) \<sigma>"

text \<open>
  Modelled from the spec: the point cloud a container stands for. The range component
  gives the positions; the reflectance component, when there is one, gives the attribute
  of the point at the same index.
\<close>

definition color_at :: "buffer option \<Rightarrow> nat \<Rightarrow> rgb option" where
  "color_at r i =
     (case r of
        None \<Rightarrow> None
      | Some b \<Rightarrow>
          (case buf_pixels b of
             Uniform v \<Rightarrow> Some v
           | Colors cs \<Rightarrow> (if i < length cs then Some (cs ! i) else None)
           | Coordinates ps \<Rightarrow> None
           | Uninitialised \<Rightarrow> None))"

definition cloud_points :: "container \<Rightarrow> point_cloud" where
  "cloud_points k =
     (case k M_COMPONENT_RANGE of
        None \<Rightarrow> []
      | Some r \<Rightarrow>
          (case buf_pixels r of
             Coordinates ps \<Rightarrow>
               map (\<lambda>i. \<lparr>pt_position = ps ! i,
                         pt_attribute = color_at (k M_COMPONENT_REFLECTANCE) i\<rparr>)
                 [0..<length ps]
           | Colors cs \<Rightarrow> []
           | Uninitialised \<Rightarrow> []
           | Uniform v \<Rightarrow> []))"

subsection \<open>Sample clouds\<close>

definition identity_transform :: rigid_transform where
  "identity_transform =
     \<lparr>rot_x = (1, 0, 0), rot_y = (0, 1, 0), rot_z = (0, 0, 1), translation = (0, 0, 0)\<rparr>"

definition demo_result :: registration_result where
  "demo_result =
     \<lparr>res_status = RmsRelativeThresholdReached, res_transform = identity_transform,
      res_rms_error = 0.1, res_iterations = 7\<rparr>"


definition demo_cloud :: point_cloud where
  "demo_cloud =
     [\<lparr>pt_position = (0, 20, 33), pt_attribute = None\<rparr>,
      \<lparr>pt_position = (0, 21, 0), pt_attribute = Some (M_RGB888 1 2 3)\<rparr>,
      \<lparr>pt_position = (85, - 18, - 33), pt_attribute = None\<rparr>,
      \<lparr>pt_position = (0, 20, 33), pt_attribute = None\<rparr>]"

definition demo_container :: "vec3 list \<Rightarrow> rgb list \<Rightarrow> container" where
  "demo_container ps cs =
     (\<lambda>k. case k of
        M_COMPONENT_RANGE \<Rightarrow>
          Some \<lparr>buf_bands = 3, buf_size_x = int (length ps), buf_size_y = 1,
                buf_pixels = Coordinates ps\<rparr>
      | M_COMPONENT_REFLECTANCE \<Rightarrow>
          Some \<lparr>buf_bands = 1, buf_size_x = int (length cs), buf_size_y = 1,
                buf_pixels = Colors cs\<rparr>)"

definition demo_store :: store where
  "demo_store =
     (\<lambda>c. case c of
        MilPointCloud i \<Rightarrow>
          (if i = 0 then demo_container [(0, 0, 0), (1, 0, 0)] [M_RGB888 9 9 9, M_RGB888 8 8 8]
           else if i = 1 then demo_container [(1, 0, 0)] [M_RGB888 7 7 7]
           else Map.empty)
      | MilCroppedPointCloud i \<Rightarrow> Map.empty)"

definition empty_disk :: "string \<Rightarrow> container" where
  "empty_disk f = Map.empty"

definition demo_merged :: point_cloud where
  "demo_merged =
     [\<lparr>pt_position = (0, 0, 0), pt_attribute = Some (M_RGB888 135 165 235)\<rparr>,
      \<lparr>pt_position = (1, 0, 0), pt_attribute = Some (M_RGB888 135 165 235)\<rparr>,
      \<lparr>pt_position = (1, 0, 0), pt_attribute = Some (M_RGB888 75 125 215)\<rparr>]"

section \<open>Properties of the program\<close>

subsection \<open>The run that reaches the registration\<close>

lemma upt_NB_POINT_CLOUD: "[0..<NB_POINT_CLOUD] = [0, 1]"
  by (simp add: NB_POINT_CLOUD_def upt_rec)

lemma upt_NB_DISPLAY: "[0..<NB_DISPLAY] = [0, 1, 2]"
  by (simp add: NB_DISPLAY_def upt_rec)

lemma init_displays_ok:
  "\<forall>d \<in> set ds. disp_alloc s d \<noteq> 0 \<Longrightarrow>
   init_displays s ds = (concat (map (display_setup s) ds), Some (map (disp_alloc s) ds))"
  by (induction ds) (simp_all add: Alloc3dDisplayId_def display_setup_def Let_def)

lemma MosMain_reaches:
  assumes "reaches_pipeline s"
  shows "MosMain s =
     \<lparr>trace = PrintHeader
        @ [Os MappAlloc, Os (MappFileOperation (FILE_SOURCE_POINT_CLOUD s 0))]
        @ allocate_and_restore s
        @ concat (map (display_setup s) [0..<NB_DISPLAY])
        @ pipeline s (MilDisplay_ids s),
      exit_code = 0\<rparr>"
  using assms
  by (simp add: MosMain_def reaches_pipeline_def CheckForRequiredMILFile_def init_displays_ok
      MilDisplay_ids_def)

lemma reaches_pipeline_status [simp]:
  "reaches_pipeline (s\<lparr>status_registration_element := st\<rparr>) = reaches_pipeline s"
  by (simp add: reaches_pipeline_def FILE_SOURCE_POINT_CLOUD_def)

lemma reaches_pipeline_demo: "reaches_pipeline demo_sdk"
  by (simp add: reaches_pipeline_def demo_sdk_def upt_NB_DISPLAY)

subsection \<open>Selecting calls\<close>

lemma keep_Nil [simp]: "keep ks [] = []"
  by (simp add: keep_def)

lemma keep_Cons [simp]:
  "keep ks (x # xs) = (if kind_of x \<in> set ks then x # keep ks xs else keep ks xs)"
  by (simp add: keep_def)

lemma keep_append [simp]: "keep ks (xs @ ys) = keep ks xs @ keep ks ys"
  by (simp add: keep_def)

lemma keep_all_other:
  "\<forall>e \<in> set es. kind_of e = KOther \<Longrightarrow> KOther \<notin> set ks \<Longrightarrow> keep ks es = []"
  by (induction es) auto

lemma box_reads_append_other:
  "\<forall>e \<in> set es. kind_of e = KOther \<Longrightarrow> box_reads b (es @ fs) = box_reads b fs"
  by (induction b es rule: box_reads.induct) auto

lemma location_reads_append_other:
  "\<forall>e \<in> set es. kind_of e = KOther \<Longrightarrow> location_reads n (es @ fs) = location_reads n fs"
  by (induction es) auto

lemma other_PrintHeader: "\<forall>e \<in> set PrintHeader. kind_of e = KOther"
  by (simp add: PrintHeader_def)

lemma other_allocate_and_restore: "\<forall>e \<in> set (allocate_and_restore s). kind_of e = KOther"
  by (auto simp add: allocate_and_restore_def)

lemma other_display_setup: "\<forall>e \<in> set (display_setup s d). kind_of e = KOther"
  by (simp add: display_setup_def display_controls_def)

lemma other_displays: "\<forall>e \<in> set (concat (map (display_setup s) ds)). kind_of e = KOther"
  using other_display_setup by auto

lemma other_show_stitched: "\<forall>e \<in> set (show_stitched D). kind_of e = KOther"
  by (simp add: show_stitched_def)

lemma other_free_objects: "\<forall>e \<in> set (free_objects D). kind_of e = KOther"
  by (auto simp add: free_objects_def)

lemma other_add_color: "\<forall>e \<in> set (add_color s D). kind_of e = KOther"
  by (auto simp add: add_color_def color_cloud_def)

text \<open>The calls before the pipeline: header, file check, containers, displays.\<close>

lemma other_prologue:
  "\<forall>e \<in> set (PrintHeader
        @ [Os MappAlloc, Os (MappFileOperation f)]
        @ allocate_and_restore s
        @ concat (map (display_setup s) ds)). kind_of e = KOther"
  using other_PrintHeader other_allocate_and_restore [of s] other_displays [of s ds]
  by auto

lemma keep_trace_reaches:
  assumes "reaches_pipeline s" and "KOther \<notin> set ks"
  shows "keep ks (trace (MosMain s)) =
     keep ks (show_inputs (MilDisplay_ids s)) @ keep ks registration_setup
     @ keep ks pre_registration @ keep ks (refinement s) @ keep ks (report_status s)
     @ keep ks [merge_call]"
proof -
  have pro: "keep ks (PrintHeader
        @ [Os MappAlloc, Os (MappFileOperation (FILE_SOURCE_POINT_CLOUD s 0))]
        @ allocate_and_restore s
        @ concat (map (display_setup s) [0..<NB_DISPLAY])) = []"
    using other_prologue assms(2) by (rule keep_all_other)
  have col: "keep ks (add_color s (MilDisplay_ids s)) = []"
    using other_add_color assms(2) by (rule keep_all_other)
  have sti: "keep ks (show_stitched (MilDisplay_ids s)) = []"
    using other_show_stitched assms(2) by (rule keep_all_other)
  have fre: "keep ks (free_objects (MilDisplay_ids s)) = []"
    using other_free_objects assms(2) by (rule keep_all_other)
  have "trace (MosMain s) = (PrintHeader
        @ [Os MappAlloc, Os (MappFileOperation (FILE_SOURCE_POINT_CLOUD s 0))]
        @ allocate_and_restore s
        @ concat (map (display_setup s) [0..<NB_DISPLAY]))
        @ pipeline s (MilDisplay_ids s)"
    by (simp add: MosMain_reaches [OF assms(1)])
  then have "keep ks (trace (MosMain s)) = keep ks (pipeline s (MilDisplay_ids s))"
    using pro by (simp only: keep_append append_Nil)
  then show ?thesis
    using col sti fre unfolding keep_def by (simp add: pipeline_def)
qed

lemma keep_show_inputs:
  "KOther \<notin> set ks \<Longrightarrow> KCount \<notin> set ks \<Longrightarrow>
   keep ks (show_inputs D) = keep ks [Proc (M3dgeoBox initial_box)]"
  by (auto simp add: show_inputs_def upt_NB_POINT_CLOUD)

lemma keep_show_inputs_count:
  "KOther \<notin> set ks \<Longrightarrow>
   keep ks (show_inputs D) =
     keep ks [Proc (M3dimStat (MilPointCloud eSource)), Proc (M3dgeoBox initial_box)]"
  by (auto simp add: show_inputs_def upt_NB_POINT_CLOUD)

lemmas stage_defs = registration_setup_def pre_registration_def refinement_def crop_loop_def
  upt_NB_POINT_CLOUD MilCroppedPointCloud_array_def merge_call_def MilPreregistration_def

lemma kind_report_status:
  "keep ks (report_status s) =
     (if KStatus \<in> set ks then [Proc (M3dregGetResult eTarget M_STATUS_REGISTRATION_ELEMENT)] else [])
     @ (if KOther \<in> set ks then tl (report_status s) else [])"
  by (cases "status_registration_element s") (simp_all add: report_status_def)

lemma upt_two: "[0..<2] = [0, 1]"
  by (simp add: upt_rec)

lemma reaches_pipeline_no_overlap: "reaches_pipeline no_overlap_sdk"
  by (simp add: no_overlap_sdk_def reaches_pipeline_demo)

lemma exit_code_present:
  "file_exists s (FILE_SOURCE_POINT_CLOUD s 0) \<Longrightarrow> exit_code (MosMain s) = 0"
  by (simp add: MosMain_def CheckForRequiredMILFile_def split: prod.splits option.splits)

lemma box_reads_skip:
  "\<forall>e \<in> set es. kind_of e \<noteq> KBox \<and> kind_of e \<noteq> KCrop \<and> kind_of e \<noteq> KStat \<Longrightarrow>
   box_reads b (es @ fs) = box_reads b fs"
  by (induction b es rule: box_reads.induct) auto

lemma box_reads_report_status: "box_reads b (report_status s @ es) = box_reads b es"
  by (cases "status_registration_element s") (simp_all add: report_status_def)

text \<open>The calls after the status report: colours, merge, display of the result, release.\<close>

lemma kinds_epilogue:
  "\<forall>e \<in> set (add_color s D @ merge_call # show_stitched D @ free_objects D).
     kind_of e = KOther \<or> kind_of e = KMerge"
  using other_add_color [of s D] other_show_stitched [of D] other_free_objects [of D]
  by (auto simp: merge_call_def)

lemma box_reads_epilogue:
  "box_reads b (add_color s D @ merge_call # show_stitched D @ free_objects D) = []"
proof -
  let ?E = "add_color s D @ merge_call # show_stitched D @ free_objects D"
  have "\<forall>e \<in> set ?E. kind_of e \<noteq> KBox \<and> kind_of e \<noteq> KCrop \<and> kind_of e \<noteq> KStat"
  proof
    fix e
    assume "e \<in> set ?E"
    with kinds_epilogue [of s D] have "kind_of e = KOther \<or> kind_of e = KMerge"
      by blast
    then show "kind_of e \<noteq> KBox \<and> kind_of e \<noteq> KCrop \<and> kind_of e \<noteq> KStat"
      by auto
  qed
  then have "box_reads b (?E @ []) = box_reads b []"
    by (rule box_reads_skip)
  then show ?thesis by simp
qed

lemma box_reads_pipeline:
  "box_reads b (pipeline s D) =
     [(Proc (M3dimCrop (MilPointCloud 0) (MilCroppedPointCloud 0)), Some initial_box),
      (Proc (M3dimCrop (MilPointCloud 1) (MilCroppedPointCloud 1)), Some initial_box),
      (Proc (M3dmetStat (MilPointCloud eSource) M_LESS_OR_EQUAL 0), Some refinement_box),
      (Proc (M3dimCrop (MilPointCloud 0) (MilCroppedPointCloud 0)), Some refinement_box),
      (Proc (M3dimCrop (MilPointCloud 1) (MilCroppedPointCloud 1)), Some refinement_box)]"
  by (simp add: pipeline_def show_inputs_def registration_setup_def pre_registration_def
      refinement_def crop_loop_def upt_NB_POINT_CLOUD box_reads_report_status
      box_reads_epilogue)

lemma box_reads_trace_reaches:
  assumes "reaches_pipeline s"
  shows "box_reads b (trace (MosMain s)) = box_reads b (pipeline s (MilDisplay_ids s))"
proof -
  have "box_reads b ((PrintHeader
        @ [Os MappAlloc, Os (MappFileOperation (FILE_SOURCE_POINT_CLOUD s 0))]
        @ allocate_and_restore s
        @ concat (map (display_setup s) [0..<NB_DISPLAY]))
        @ pipeline s (MilDisplay_ids s)) = box_reads b (pipeline s (MilDisplay_ids s))"
    by (rule box_reads_append_other) (rule other_prologue)
  then show ?thesis
    by (simp add: MosMain_reaches [OF assms])
qed

subsection \<open>The double constants and the overlap\<close>

text \<open>The exponent is the right one: \<open>x\<close> lies in the binade it names.\<close>

lemma binade_ge1:
  assumes "1 \<le> x"
  shows "pow2 (binade x) \<le> x \<and> x < pow2 (binade x + 1)"
proof -
  let ?n = "\<lfloor>x\<rfloor>"
  from assms have n: "0 < ?n" by simp
  then have b1: "1 \<le> bitlen ?n" by (simp add: bitlen_alt_def)
  from bitlen_bounds [OF n] have lo: "2 ^ nat (bitlen ?n - 1) \<le> ?n" and hi: "?n < 2 ^ nat (bitlen ?n)"
    by simp_all
  have "real_of_int (2 ^ nat (bitlen ?n - 1)) \<le> real_of_int ?n"
    using lo by (simp only: of_int_le_iff)
  also have "\<dots> \<le> x" by simp
  finally have 1: "pow2 (binade x) \<le> x"
    using assms b1 by (simp add: binade_def pow2_def)
  have "?n + 1 \<le> 2 ^ nat (bitlen ?n)" using hi by simp
  then have "real_of_int (?n + 1) \<le> real_of_int (2 ^ nat (bitlen ?n))"
    by (simp only: of_int_le_iff)
  then have "real_of_int ?n + 1 \<le> 2 ^ nat (bitlen ?n)" by simp
  moreover have "x < real_of_int ?n + 1" by linarith
  ultimately have "x < 2 ^ nat (bitlen ?n)" by linarith
  then have 2: "x < pow2 (binade x + 1)"
    using assms b1 by (simp add: binade_def pow2_def)
  from 1 2 show ?thesis ..
qed

lemma binade_lt1:
  assumes "0 < x" and "x < 1"
  shows "pow2 (binade x) \<le> x \<and> x < pow2 (binade x + 1)"
proof -
  let ?m = "\<lceil>1 / x\<rceil> - 1"
  let ?k = "bitlen ?m"
  from assms have y: "1 < 1 / x" by simp
  then have m: "0 < ?m" by (simp add: less_ceiling_iff)
  then have k1: "1 \<le> ?k" by (simp add: bitlen_alt_def)
  from bitlen_bounds [OF m] have lo: "2 ^ nat (?k - 1) \<le> ?m" and hi: "?m < 2 ^ nat ?k"
    by simp_all
  have "\<lceil>1 / x\<rceil> \<le> 2 ^ nat ?k" using hi by simp
  then have "real_of_int \<lceil>1 / x\<rceil> \<le> real_of_int (2 ^ nat ?k)"
    by (simp only: of_int_le_iff)
  then have "1 / x \<le> 2 ^ nat ?k"
    by (simp add: ceiling_le_iff)
  then have "1 / 2 ^ nat ?k \<le> x"
    using assms(1) by (simp add: field_simps)
  then have 1: "pow2 (binade x) \<le> x"
    using assms k1 by (simp add: binade_def pow2_def)
  have "real_of_int (2 ^ nat (?k - 1)) \<le> real_of_int ?m"
    using lo by (simp only: of_int_le_iff)
  also have "real_of_int ?m < 1 / x"
    using ceiling_correct [of "1 / x"] by simp
  finally have "2 ^ nat (?k - 1) < 1 / x" by simp
  then have "x < 1 / 2 ^ nat (?k - 1)"
    using assms(1) by (simp add: field_simps)
  moreover have "pow2 (binade x + 1) = 1 / 2 ^ nat (?k - 1)"
    using assms k1 by (auto simp add: binade_def pow2_def)
  ultimately have 2: "x < pow2 (binade x + 1)" by simp
  from 1 2 show ?thesis ..
qed

lemma binade_bounds:
  assumes "0 < x"
  shows "pow2 (binade x) \<le> x \<and> x < pow2 (binade x + 1)"
proof (cases "1 \<le> x")
  case True
  then show ?thesis by (rule binade_ge1)
next
  case False
  with assms show ?thesis by (intro binade_lt1) simp_all
qed

text \<open>A rounded value below 1024 in magnitude is far from the overflow threshold.\<close>

lemma to_double_small:
  assumes "rnd x = y" and "\<bar>y\<bar> < 1024"
  shows "to_double x = Finite y"
proof -
  have "(1024::real) = 2 ^ 10" by simp
  also have "\<dots> \<le> 2 ^ 1024" by (rule power_increasing) simp_all
  finally have "(1024::real) \<le> pow2 1024" by (simp add: pow2_def)
  with assms show ?thesis
    by (auto simp add: to_double_def Let_def)
qed

lemma of_MIL_INT_Finite:
  assumes "rnd (real_of_int n) = y" and "\<bar>y\<bar> < 1024"
  shows "of_MIL_INT n = Finite y"
  unfolding of_MIL_INT_def using assms by (rule to_double_small)

lemma mil_mul_Finite:
  assumes "rnd (a * b) = y" and "\<bar>y\<bar> < 1024"
  shows "mil_mul (Finite a) (Finite b) = Finite y"
  using to_double_small [OF assms] by simp

lemma mil_div_Finite:
  assumes "b \<noteq> 0" and "rnd (a / b) = y" and "\<bar>y\<bar> < 1024"
  shows "mil_div (Finite a) (Finite b) = Finite y"
  using to_double_small [OF assms(2,3)] assms(1) by simp

lemma double_constants:
  "EXTRACTION_BOX_SIZE_X = 170" "EXTRACTION_BOX_SIZE_Y = 200" "EXTRACTION_BOX_SIZE_Z = - 66"
  "OVERLAP = 95" "RMS_ERROR_RELATIVE_THRESHOLD = 1 / 2" "GRID_SIZE = 1"
  "BOX_OVERLAP = 3602879701896397 / 18014398509481984"
  "BOX_USED_OVERLAP = 6485183463413515 / 36028797018963968"
  by code_simp+

lemma box_dy_values:
  "rnd (EXTRACTION_BOX_SIZE_Y * BOX_USED_OVERLAP) = 36 + 1 / 2 ^ 47"
  "rnd (EXTRACTION_BOX_SIZE_Y * BOX_OVERLAP) = 40"
  by code_simp+

lemma box_dims:
  "box_dx initial_box = 170" "box_dy initial_box = 36 + 1 / 2 ^ 47" "box_dz initial_box = - 66"
  "box_dx refinement_box = 170" "box_dy refinement_box = 40" "box_dz refinement_box = - 66"
  by (simp_all add: initial_box_def refinement_box_def box_dy_values)
    (simp_all add: double_constants)

lemma box_centres:
  "box_cx initial_box = 0" "box_cy initial_box = 0" "box_cz initial_box = 0"
  "box_cx refinement_box = 0" "box_cy refinement_box = 0" "box_cz refinement_box = 0"
  by (simp_all add: initial_box_def refinement_box_def)

text \<open>The general operations agree with the constants: no product of them overflows.\<close>

lemma box_dy_products:
  "mil_mul (Finite EXTRACTION_BOX_SIZE_Y) (Finite BOX_USED_OVERLAP) = Finite (box_dy initial_box)"
  "mil_mul (Finite EXTRACTION_BOX_SIZE_Y) (Finite BOX_OVERLAP) = Finite (box_dy refinement_box)"
proof -
  show "mil_mul (Finite EXTRACTION_BOX_SIZE_Y) (Finite BOX_USED_OVERLAP) =
      Finite (box_dy initial_box)"
    unfolding box_dims by (rule mil_mul_Finite) (rule box_dy_values, simp)
  show "mil_mul (Finite EXTRACTION_BOX_SIZE_Y) (Finite BOX_OVERLAP) =
      Finite (box_dy refinement_box)"
    unfolding box_dims by (rule mil_mul_Finite) (rule box_dy_values, simp)
qed

text \<open>A positive integer converts to a positive double or to the positive infinity.\<close>

lemma round_half_even_ge_floor: "\<lfloor>x\<rfloor> \<le> round_half_even x"
  by (simp add: round_half_even_def Let_def)

lemma rnd_of_int_pos:
  assumes "0 < n"
  shows "0 < rnd (real_of_int n)"
proof -
  let ?e = "bitlen n - 1"
  from assms have b: "2 ^ nat ?e \<le> n"
    using bitlen_bounds [of n] by simp
  from assms have e0: "0 \<le> ?e"
    by (simp add: bitlen_alt_def)
  have q: "0 < pow2 (?e - 52)"
    by (simp add: pow2_def)
  have "1 \<le> real_of_int n / pow2 (?e - 52)"
  proof -
    have "pow2 (?e - 52) \<le> 2 ^ nat ?e"
    proof (cases "52 \<le> ?e")
      case True
      then show ?thesis
        by (simp add: pow2_def power_increasing)
    next
      case False
      then have "pow2 (?e - 52) \<le> 1"
        by (simp add: pow2_def divide_le_eq_1)
      also have "(1::real) \<le> 2 ^ nat ?e"
        by simp
      finally show ?thesis .
    qed
    also have "(2::real) ^ nat ?e \<le> real_of_int n"
      using b by (metis of_int_le_iff of_int_numeral of_int_power)
    finally show ?thesis
      using q by (simp add: le_divide_eq)
  qed
  then have "1 \<le> \<lfloor>real_of_int n / pow2 (?e - 52)\<rfloor>"
    by (simp add: le_floor_iff)
  then have "0 < round_half_even (real_of_int n / pow2 (?e - 52))"
    using round_half_even_ge_floor [of "real_of_int n / pow2 (?e - 52)"] by linarith
  moreover have "rnd (real_of_int n) =
      of_int (round_half_even (real_of_int n / pow2 (?e - 52))) * pow2 (?e - 52)"
    using assms e0 by (simp add: rnd_def binade_def Let_def max_def)
  ultimately show ?thesis
    using q by simp
qed

lemma rnd_minus: "rnd (- x) = - rnd x"
  by (simp add: rnd_def Let_def)

lemma of_MIL_INT_zero: "of_MIL_INT 0 = Finite 0"
  by (simp add: of_MIL_INT_def to_double_def rnd_def pow2_def)

lemma div_by_zero_pos:
  assumes "0 < n"
  shows "mil_div (of_MIL_INT n) (Finite 0) = PlusInf"
proof -
  have "0 < rnd (real_of_int n)"
    using assms by (rule rnd_of_int_pos)
  then show ?thesis
    by (simp add: of_MIL_INT_def to_double_def Let_def signed_inf_def pow2_def)
qed

lemma div_by_zero_neg:
  assumes "n < 0"
  shows "mil_div (of_MIL_INT n) (Finite 0) = MinusInf"
proof -
  have "0 < rnd (real_of_int (- n))"
    using assms by (intro rnd_of_int_pos) simp
  then have "rnd (real_of_int n) < 0"
    by (simp add: rnd_minus)
  then show ?thesis
    by (simp add: of_MIL_INT_def to_double_def Let_def signed_inf_def pow2_def)
qed

lemma FullModelOverlap_zero_total:
  assumes "number_of_points_valid s (MilPointCloud eSource) = 0"
  shows "FullModelOverlap s =
     (if 0 < stat_number s (MilPointCloud eSource) refinement_box then PlusInf
      else if stat_number s (MilPointCloud eSource) refinement_box < 0 then MinusInf
      else NaN)"
proof -
  let ?n = "stat_number s (MilPointCloud eSource) refinement_box"
  consider "0 < ?n" | "?n < 0" | "?n = 0" by linarith
  then show ?thesis
  proof cases
    case 1
    then show ?thesis
      using assms div_by_zero_pos [of ?n]
      by (simp add: FullModelOverlap_def of_MIL_INT_zero signed_inf_def double_constants)
  next
    case 2
    then show ?thesis
      using assms div_by_zero_neg [of ?n]
      by (simp add: FullModelOverlap_def of_MIL_INT_zero signed_inf_def double_constants)
  next
    case 3
    then show ?thesis
      using assms
      by (simp add: FullModelOverlap_def of_MIL_INT_zero signed_inf_def)
  qed
qed

lemma FullModelOverlap_demo: "FullModelOverlap demo_sdk = Finite 19"
proof -
  have a: "of_MIL_INT 200 = Finite 200"
    by (rule of_MIL_INT_Finite) (code_simp, simp)
  have b: "of_MIL_INT 1000 = Finite 1000"
    by (rule of_MIL_INT_Finite) (code_simp, simp)
  have c: "mil_div (Finite 200) (Finite 1000) = Finite (3602879701896397 / 18014398509481984)"
    by (rule mil_div_Finite) (simp, code_simp, simp)
  have d: "mil_mul (Finite (3602879701896397 / 18014398509481984)) (Finite 95) = Finite 19"
    by (rule mil_mul_Finite) (code_simp, simp)
  show ?thesis
    by (simp add: FullModelOverlap_def demo_sdk_def double_constants a b c d
        del: mil_div.simps mil_mul.simps)
qed

lemma FullModelOverlap_third:
  "FullModelOverlap third_sdk = Finite (4456687131252053 / 140737488355328)"
proof -
  have a: "of_MIL_INT 1 = Finite 1"
    by (rule of_MIL_INT_Finite) (code_simp, simp)
  have b: "of_MIL_INT 3 = Finite 3"
    by (rule of_MIL_INT_Finite) (code_simp, simp)
  have c: "mil_div (Finite 1) (Finite 3) = Finite (6004799503160661 / 18014398509481984)"
    by (rule mil_div_Finite) (simp, code_simp, simp)
  have d: "mil_mul (Finite (6004799503160661 / 18014398509481984)) (Finite 95) =
      Finite (4456687131252053 / 140737488355328)"
    by (rule mil_mul_Finite) (code_simp, simp)
  show ?thesis
    by (simp add: FullModelOverlap_def third_sdk_def demo_sdk_def double_constants a b c d
        del: mil_div.simps mil_mul.simps)
qed

lemma reaches_pipeline_empty_source: "reaches_pipeline empty_source_sdk"
  using reaches_pipeline_demo
  by (simp add: empty_source_sdk_def reaches_pipeline_def FILE_SOURCE_POINT_CLOUD_def)

lemmas all_stage_defs = PrintHeader_def allocate_and_restore_def display_setup_def
  display_controls_def pipeline_def show_inputs_def stage_defs report_status_def add_color_def
  color_cloud_def show_stitched_def free_objects_def MilDisplay_ids_def upt_NB_DISPLAY

lemma init_displays_fail:
  assumes "d \<in> set ds" and "disp_alloc s d = 0"
  shows "\<exists>es. init_displays s ds =
      (es @ [Os (MosPrintf ''The current system does not support the 3D display. Press any key to exit.'' []),
             Os MosGetch, Os (Exit 0)], None) \<and> (\<forall>e \<in> set es. kind_of e = KOther)"
  using assms
proof (induction ds)
  case Nil
  then show ?case by simp
next
  case (Cons a ds)
  show ?case
  proof (cases "disp_alloc s a = 0")
    case True
    then show ?thesis
      by (simp add: Alloc3dDisplayId_def Let_def)
  next
    case False
    with Cons.prems have "d \<in> set ds" by auto
    from Cons.IH [OF this Cons.prems(2)] obtain es where
      es: "init_displays s ds =
        (es @ [Os (MosPrintf ''The current system does not support the 3D display. Press any key to exit.'' []),
             Os MosGetch, Os (Exit 0)], None)" "\<forall>e \<in> set es. kind_of e = KOther"
      by blast
    have "\<forall>e \<in> set (display_setup s a @ es). kind_of e = KOther"
      using es(2) other_display_setup [of s a] by auto
    moreover have "init_displays s (a # ds) =
        ((display_setup s a @ es) @ [Os (MosPrintf ''The current system does not support the 3D display. Press any key to exit.'' []),
             Os MosGetch, Os (Exit 0)], None)"
      using False es(1) by (simp add: Alloc3dDisplayId_def Let_def display_setup_def)
    ultimately show ?thesis by blast
  qed
qed

lemma no_display_hyps:
  "file_exists no_display_sdk (FILE_SOURCE_POINT_CLOUD no_display_sdk 0)"
  "\<exists>d < NB_DISPLAY. disp_alloc no_display_sdk d = 0"
   apply (simp add: no_display_sdk_def demo_sdk_def)
  apply (rule exI [of _ 1])
  apply (simp add: no_display_sdk_def NB_DISPLAY_def)
  done

subsection \<open>Crop, merge and containers\<close>

lemma count_list_filter:
  "count_list (filter P xs) x = (if P x then count_list xs x else 0)"
  by (induction xs) auto

lemma run_buf_add_color_range:
  "run_buf disk (add_color s D) \<sigma> c M_COMPONENT_RANGE = \<sigma> c M_COMPONENT_RANGE"
  by (simp add: run_buf_def add_color_def color_cloud_def upt_NB_POINT_CLOUD)

lemma run_buf_add_color_reflectance:
  "i < NB_POINT_CLOUD \<Longrightarrow>
   run_buf disk (add_color s D) \<sigma> (MilPointCloud i) M_COMPONENT_REFLECTANCE =
     Some \<lparr>buf_bands = 3, buf_size_x = range_size_x s i, buf_size_y = range_size_y s i,
           buf_pixels = Uniform (cloud_color i)\<rparr>"
  by (auto simp add: run_buf_def add_color_def color_cloud_def upt_NB_POINT_CLOUD
      NB_POINT_CLOUD_def less_Suc_eq numeral_2_eq_2)

lemma cloud_color_values:
  "cloud_color 0 = M_RGB888 135 165 235" "cloud_color 1 = M_RGB888 75 125 215"
  by (simp_all add: cloud_color_def)

lemma length_cloud_points:
  "k M_COMPONENT_RANGE = k' M_COMPONENT_RANGE \<Longrightarrow>
   length (cloud_points k) = length (cloud_points k')"
  by (simp add: cloud_points_def split: option.splits pixels.splits)

lemma cloud_points_uniform:
  assumes "k M_COMPONENT_REFLECTANCE = Some b" and "buf_pixels b = Uniform v"
  shows "map pt_attribute (cloud_points k) = replicate (length (cloud_points k)) (Some v)"
  using assms
  by (auto simp add: cloud_points_def color_at_def map_replicate_const comp_def
      split: option.splits pixels.splits)

lemma pt_attribute_move_point: "pt_attribute (move_point t p) = pt_attribute p"
  by (simp add: move_point_def)

lemma Merge_attributes:
  "Merge r f m = Inr out \<Longrightarrow> map pt_attribute out = map pt_attribute f @ map pt_attribute m"
  by (auto simp add: Merge_def pt_attribute_move_point comp_def split: if_splits)

lemma trace_around_merge:
  assumes "reaches_pipeline s"
  shows "\<exists>pre post. trace (MosMain s) =
      pre @ report_status s @ add_color s (MilDisplay_ids s) @ merge_call # post"
proof -
  have "trace (MosMain s) =
      (PrintHeader
        @ [Os MappAlloc, Os (MappFileOperation (FILE_SOURCE_POINT_CLOUD s 0))]
        @ allocate_and_restore s
        @ concat (map (display_setup s) [0..<NB_DISPLAY])
        @ show_inputs (MilDisplay_ids s) @ registration_setup @ pre_registration @ refinement s)
      @ report_status s @ add_color s (MilDisplay_ids s)
      @ merge_call # (show_stitched (MilDisplay_ids s) @ free_objects (MilDisplay_ids s))"
    by (simp add: MosMain_reaches [OF assms] pipeline_def)
  then show ?thesis by blast
qed

lemma buf_calls_add_color:
  "buf_calls (add_color s D) =
     [MbufFreeComponent (MilPointCloud 0) M_COMPONENT_REFLECTANCE,
      MbufInquireContainer (MilPointCloud 0) M_COMPONENT_RANGE M_SIZE_X,
      MbufInquireContainer (MilPointCloud 0) M_COMPONENT_RANGE M_SIZE_Y,
      MbufAllocComponent (MilPointCloud 0) 3 (range_size_x s 0) (range_size_y s 0)
        M_COMPONENT_REFLECTANCE,
      MbufClear (MilPointCloud 0) M_COMPONENT_REFLECTANCE (M_RGB888 135 165 235),
      MbufFreeComponent (MilPointCloud 1) M_COMPONENT_REFLECTANCE,
      MbufInquireContainer (MilPointCloud 1) M_COMPONENT_RANGE M_SIZE_X,
      MbufInquireContainer (MilPointCloud 1) M_COMPONENT_RANGE M_SIZE_Y,
      MbufAllocComponent (MilPointCloud 1) 3 (range_size_x s 1) (range_size_y s 1)
        M_COMPONENT_REFLECTANCE,
      MbufClear (MilPointCloud 1) M_COMPONENT_REFLECTANCE (M_RGB888 75 125 215)]"
  by (simp add: add_color_def color_cloud_def upt_NB_POINT_CLOUD cloud_color_def)

lemma demo_recolored:
  "cloud_points (run_buf empty_disk (add_color demo_sdk (MilDisplay_ids demo_sdk)) demo_store
      (MilPointCloud eSource)) =
     [\<lparr>pt_position = (0, 0, 0), pt_attribute = Some (M_RGB888 135 165 235)\<rparr>,
      \<lparr>pt_position = (1, 0, 0), pt_attribute = Some (M_RGB888 135 165 235)\<rparr>]"
  "cloud_points (run_buf empty_disk (add_color demo_sdk (MilDisplay_ids demo_sdk)) demo_store
      (MilPointCloud eTarget)) =
     [\<lparr>pt_position = (1, 0, 0), pt_attribute = Some (M_RGB888 75 125 215)\<rparr>]"
  by (simp_all add: run_buf_def add_color_def color_cloud_def upt_NB_POINT_CLOUD demo_store_def
      demo_container_def cloud_points_def color_at_def cloud_color_def eSource_def eTarget_def)

lemma demo_merge:
  "Merge demo_result
     (cloud_points (run_buf empty_disk (add_color demo_sdk (MilDisplay_ids demo_sdk)) demo_store
        (MilPointCloud eSource)))
     (cloud_points (run_buf empty_disk (add_color demo_sdk (MilDisplay_ids demo_sdk)) demo_store
        (MilPointCloud eTarget))) = Inr demo_merged"
  by (simp add: demo_recolored Merge_def demo_result_def demo_merged_def move_point_def
      apply_transform_def dot_def identity_transform_def)




subsection \<open>The merge and the registration status\<close>



subsection \<open>The value returned by \<^verbatim>\<open>MosMain\<close>\<close>

text \<open>
  Claim C2, as amended. When the first input file, \<^verbatim>\<open>StitchReference.ply\<close>, is reported
  absent, \<^verbatim>\<open>MosMain\<close> returns -1 and the pipeline does not start: the run prints, asks
  for the file, and waits for a key. When both input files are present it returns 0
  whatever the registration status, \<^verbatim>\<open>NotInitialized\<close> and \<^verbatim>\<open>NotEnoughPointPairs\<close>
  included.
\<close>

theorem exit_code_of_run:
  "(\<not> file_exists s (FILE_SOURCE_POINT_CLOUD s 0) \<longrightarrow>
      MosMain s = \<lparr>trace = missing_input s, exit_code = - 1\<rparr>) \<and>
   (file_exists s (FILE_SOURCE_POINT_CLOUD s 0) \<and> file_exists s (FILE_SOURCE_POINT_CLOUD s 1) \<longrightarrow>
      exit_code (MosMain (s\<lparr>status_registration_element := st\<rparr>)) = 0)"
proof (intro conjI impI)
  assume "\<not> file_exists s (FILE_SOURCE_POINT_CLOUD s 0)"
  then show "MosMain s = \<lparr>trace = missing_input s, exit_code = - 1\<rparr>"
    by (simp add: MosMain_def CheckForRequiredMILFile_def missing_input_def)
next
  assume "file_exists s (FILE_SOURCE_POINT_CLOUD s 0) \<and> file_exists s (FILE_SOURCE_POINT_CLOUD s 1)"
  then have "file_exists (s\<lparr>status_registration_element := st\<rparr>)
      (FILE_SOURCE_POINT_CLOUD (s\<lparr>status_registration_element := st\<rparr>) 0)"
    by (simp add: FILE_SOURCE_POINT_CLOUD_def)
  then show "exit_code (MosMain (s\<lparr>status_registration_element := st\<rparr>)) = 0"
    by (rule exit_code_present)
qed

text \<open>
  Claim C2, witness: a run whose first file is absent, and the sample run, where both
  files are present, with the status \<^verbatim>\<open>NotInitialized\<close>.
\<close>

theorem exit_code_of_run_witness:
  "\<not> file_exists missing_file_sdk (FILE_SOURCE_POINT_CLOUD missing_file_sdk 0) \<and>
   MosMain missing_file_sdk = \<lparr>trace = missing_input missing_file_sdk, exit_code = - 1\<rparr> \<and>
   file_exists demo_sdk (FILE_SOURCE_POINT_CLOUD demo_sdk 0) \<and>
   file_exists demo_sdk (FILE_SOURCE_POINT_CLOUD demo_sdk 1) \<and>
   exit_code (MosMain (demo_sdk\<lparr>status_registration_element := M_NOT_INITIALIZED\<rparr>)) = 0"
proof -
  have a: "\<not> file_exists missing_file_sdk (FILE_SOURCE_POINT_CLOUD missing_file_sdk 0)"
    by (simp add: missing_file_sdk_def demo_sdk_def)
  have b: "file_exists demo_sdk (FILE_SOURCE_POINT_CLOUD demo_sdk 0) \<and>
     file_exists demo_sdk (FILE_SOURCE_POINT_CLOUD demo_sdk 1)"
    by (simp add: demo_sdk_def)
  show ?thesis
    using a b exit_code_of_run [of missing_file_sdk M_NOT_INITIALIZED]
      exit_code_of_run [of demo_sdk M_NOT_INITIALIZED]
    by simp
qed

text \<open>
  Claim C2, counterexample to the claim as stated (a failed alignment gives a nonzero exit
  code): both files are present, the registration reports \<^verbatim>\<open>NotEnoughPointPairs\<close>, and
  \<^verbatim>\<open>MosMain\<close> returns 0.
\<close>

theorem exit_code_after_failed_registration:
  "file_exists no_overlap_sdk (FILE_SOURCE_POINT_CLOUD no_overlap_sdk 0) \<and>
   file_exists no_overlap_sdk (FILE_SOURCE_POINT_CLOUD no_overlap_sdk 1) \<and>
   status_registration_element no_overlap_sdk = M_NOT_ENOUGH_POINT_PAIRS \<and>
   exit_code (MosMain no_overlap_sdk) = 0"
  by (simp add: MosMain_reaches [OF reaches_pipeline_no_overlap])
    (simp add: no_overlap_sdk_def demo_sdk_def)

subsection \<open>The two extraction boxes\<close>

text \<open>
  Claim C3, as amended. The two boxes are used in sequence, and the first is the narrower
  one: in every run that reaches the registration the two crops before the
  pre-registration read the first box, whose Y size is the double product of 200 and
  \<^verbatim>\<open>BOX_USED_OVERLAP\<close> (itself the double product of 0.9 and 0.20), that is
  36.00000000000001, exactly 36 + 2^-47; and the statistic and the two crops before the
  second registration read the second box, whose Y size is the double product of 200 and
  \<^verbatim>\<open>BOX_OVERLAP\<close>, exactly 40. The boxes have the same centre, the same X size, 170, and
  the same Z size, -66.
\<close>

theorem crop_boxes_in_sequence:
  assumes "reaches_pipeline s"
  shows "box_reads None (trace (MosMain s)) =
     [(Proc (M3dimCrop (MilPointCloud 0) (MilCroppedPointCloud 0)), Some initial_box),
      (Proc (M3dimCrop (MilPointCloud 1) (MilCroppedPointCloud 1)), Some initial_box),
      (Proc (M3dmetStat (MilPointCloud eSource) M_LESS_OR_EQUAL 0), Some refinement_box),
      (Proc (M3dimCrop (MilPointCloud 0) (MilCroppedPointCloud 0)), Some refinement_box),
      (Proc (M3dimCrop (MilPointCloud 1) (MilCroppedPointCloud 1)), Some refinement_box)] \<and>
   box_cx initial_box = box_cx refinement_box \<and>
   box_cy initial_box = box_cy refinement_box \<and>
   box_cz initial_box = box_cz refinement_box \<and>
   box_dx initial_box = 170 \<and> box_dx refinement_box = 170 \<and>
   box_dz initial_box = - 66 \<and> box_dz refinement_box = - 66 \<and>
   box_dy initial_box = 36 + 1 / 2 ^ 47 \<and> box_dy refinement_box = 40 \<and>
   box_dy initial_box < box_dy refinement_box"
  by (simp add: box_reads_trace_reaches [OF assms] box_reads_pipeline box_dims box_centres)

text \<open>Claim C3, witness: the sample run.\<close>

theorem crop_boxes_in_sequence_witness:
  "reaches_pipeline demo_sdk \<and>
   box_reads None (trace (MosMain demo_sdk)) =
     [(Proc (M3dimCrop (MilPointCloud 0) (MilCroppedPointCloud 0)), Some initial_box),
      (Proc (M3dimCrop (MilPointCloud 1) (MilCroppedPointCloud 1)), Some initial_box),
      (Proc (M3dmetStat (MilPointCloud eSource) M_LESS_OR_EQUAL 0), Some refinement_box),
      (Proc (M3dimCrop (MilPointCloud 0) (MilCroppedPointCloud 0)), Some refinement_box),
      (Proc (M3dimCrop (MilPointCloud 1) (MilCroppedPointCloud 1)), Some refinement_box)] \<and>
   box_dx initial_box = 170 \<and> box_dx refinement_box = 170 \<and>
   box_dz initial_box = - 66 \<and> box_dz refinement_box = - 66 \<and>
   box_dy initial_box = 36 + 1 / 2 ^ 47 \<and> box_dy refinement_box = 40 \<and>
   box_dy initial_box < box_dy refinement_box"
  using reaches_pipeline_demo crop_boxes_in_sequence [OF reaches_pipeline_demo]
  by simp

text \<open>
  Claim C3, counterexample to the claim as stated (the first box is the wider one): in the
  sample run the first crop reads \<open>initial_box\<close>, the crop of the refinement reads
  \<open>refinement_box\<close>, and on no axis is \<open>refinement_box\<close> smaller than \<open>initial_box\<close>.
\<close>

theorem first_box_not_wider:
  "box_reads None (trace (MosMain demo_sdk)) ! 0 =
     (Proc (M3dimCrop (MilPointCloud 0) (MilCroppedPointCloud 0)), Some initial_box) \<and>
   box_reads None (trace (MosMain demo_sdk)) ! 3 =
     (Proc (M3dimCrop (MilPointCloud 0) (MilCroppedPointCloud 0)), Some refinement_box) \<and>
   \<not> box_dx refinement_box < box_dx initial_box \<and>
   \<not> box_dy refinement_box < box_dy initial_box \<and>
   \<not> \<bar>box_dz refinement_box\<bar> < \<bar>box_dz initial_box\<bar>"
  by (simp add: box_reads_trace_reaches [OF reaches_pipeline_demo] box_reads_pipeline box_dims)

subsection \<open>The overlap of the second registration\<close>

text \<open>
  Claim C4, as amended. The program asks the library for the number of valid points of the
  source cloud before the first box is set, and between the two registrations for the
  number of points of the source cloud whose signed distance to the second box (Y size 40,
  the wider of the two) is at most 0. It converts both numbers to double, divides the
  second by the first, multiplies the quotient by the initial overlap, 95, each operation
  rounded as double arithmetic rounds, and sets the product as the overlap of the second
  registration. There is no guard: when the total is zero the division is carried out all
  the same and gives an infinity, or NaN when the count is zero too; the value is passed to
  the library and the second registration is calculated.
\<close>

theorem overlap_between_phases:
  assumes "reaches_pipeline s"
  shows "keep [KCount, KBox, KStat, KOverlap, KCalculate] (trace (MosMain s)) =
     [Proc (M3dimStat (MilPointCloud eSource)),
      Proc (M3dgeoBox initial_box),
      Proc (M3dregControl M_ALL (M_OVERLAP (Finite OVERLAP))),
      Proc (M3dregCalculate MilCroppedPointCloud_array),
      Proc (M3dgeoBox refinement_box),
      Proc (M3dmetStat (MilPointCloud eSource) M_LESS_OR_EQUAL 0),
      Proc (M3dregControl M_ALL (M_OVERLAP (FullModelOverlap s))),
      Proc (M3dregCalculate MilCroppedPointCloud_array)] \<and>
   FullModelOverlap s =
     mil_mul
       (mil_div (of_MIL_INT (stat_number s (MilPointCloud eSource) refinement_box))
          (of_MIL_INT (number_of_points_valid s (MilPointCloud eSource))))
       (Finite 95) \<and>
   (number_of_points_valid s (MilPointCloud eSource) = 0 \<longrightarrow>
      FullModelOverlap s =
        (if 0 < stat_number s (MilPointCloud eSource) refinement_box then PlusInf
         else if stat_number s (MilPointCloud eSource) refinement_box < 0 then MinusInf
         else NaN))"
proof -
  have "FullModelOverlap s =
     mil_mul
       (mil_div (of_MIL_INT (stat_number s (MilPointCloud eSource) refinement_box))
          (of_MIL_INT (number_of_points_valid s (MilPointCloud eSource))))
       (Finite 95)"
    by (simp add: FullModelOverlap_def double_constants)
  then show ?thesis
    using FullModelOverlap_zero_total [of s]
    by (simp add: keep_trace_reaches [OF assms] keep_show_inputs_count kind_report_status
        stage_defs)
qed

text \<open>
  Claim C4, witness: the sample run, 200 points of 1000 in the box, overlap 19; a run with
  1 point of 3 in the box, overlap 31.666666666666664, the double below 95/3; and a run
  with a source cloud of zero points, where the hypothesis on the total holds and the
  overlap is NaN.
\<close>

theorem overlap_between_phases_witness:
  "reaches_pipeline demo_sdk \<and>
   keep [KCount, KBox, KStat, KOverlap, KCalculate] (trace (MosMain demo_sdk)) =
     [Proc (M3dimStat (MilPointCloud 0)),
      Proc (M3dgeoBox initial_box),
      Proc (M3dregControl M_ALL (M_OVERLAP (Finite 95))),
      Proc (M3dregCalculate [MilCroppedPointCloud 0, MilCroppedPointCloud 1]),
      Proc (M3dgeoBox refinement_box),
      Proc (M3dmetStat (MilPointCloud 0) M_LESS_OR_EQUAL 0),
      Proc (M3dregControl M_ALL (M_OVERLAP (Finite 19))),
      Proc (M3dregCalculate [MilCroppedPointCloud 0, MilCroppedPointCloud 1])] \<and>
   FullModelOverlap third_sdk = Finite (4456687131252053 / 140737488355328) \<and>
   reaches_pipeline empty_source_sdk \<and>
   number_of_points_valid empty_source_sdk (MilPointCloud eSource) = 0 \<and>
   FullModelOverlap empty_source_sdk = NaN"
proof -
  have t: "FullModelOverlap third_sdk = Finite (4456687131252053 / 140737488355328)"
    by (rule FullModelOverlap_third)
  have z: "number_of_points_valid empty_source_sdk (MilPointCloud eSource) = 0"
    by (simp add: empty_source_sdk_def)
  have n: "\<not> 0 < stat_number empty_source_sdk (MilPointCloud eSource) refinement_box"
    "\<not> stat_number empty_source_sdk (MilPointCloud eSource) refinement_box < 0"
    by (simp_all add: empty_source_sdk_def)
  have "keep [KCount, KBox, KStat, KOverlap, KCalculate] (trace (MosMain demo_sdk)) =
     [Proc (M3dimStat (MilPointCloud eSource)),
      Proc (M3dgeoBox initial_box),
      Proc (M3dregControl M_ALL (M_OVERLAP (Finite OVERLAP))),
      Proc (M3dregCalculate MilCroppedPointCloud_array),
      Proc (M3dgeoBox refinement_box),
      Proc (M3dmetStat (MilPointCloud eSource) M_LESS_OR_EQUAL 0),
      Proc (M3dregControl M_ALL (M_OVERLAP (FullModelOverlap demo_sdk))),
      Proc (M3dregCalculate MilCroppedPointCloud_array)]"
    using overlap_between_phases [OF reaches_pipeline_demo] by (rule conjunct1)
  then have l: "keep [KCount, KBox, KStat, KOverlap, KCalculate] (trace (MosMain demo_sdk)) =
     [Proc (M3dimStat (MilPointCloud 0)),
      Proc (M3dgeoBox initial_box),
      Proc (M3dregControl M_ALL (M_OVERLAP (Finite 95))),
      Proc (M3dregCalculate [MilCroppedPointCloud 0, MilCroppedPointCloud 1]),
      Proc (M3dgeoBox refinement_box),
      Proc (M3dmetStat (MilPointCloud 0) M_LESS_OR_EQUAL 0),
      Proc (M3dregControl M_ALL (M_OVERLAP (Finite 19))),
      Proc (M3dregCalculate [MilCroppedPointCloud 0, MilCroppedPointCloud 1])]"
    by (simp add: FullModelOverlap_demo double_constants MilCroppedPointCloud_array_def
        upt_NB_POINT_CLOUD eSource_def)
  have "number_of_points_valid empty_source_sdk (MilPointCloud eSource) = 0 \<longrightarrow>
      FullModelOverlap empty_source_sdk =
        (if 0 < stat_number empty_source_sdk (MilPointCloud eSource) refinement_box then PlusInf
         else if stat_number empty_source_sdk (MilPointCloud eSource) refinement_box < 0
           then MinusInf
         else NaN)"
    using overlap_between_phases [OF reaches_pipeline_empty_source] by blast
  with z n have "FullModelOverlap empty_source_sdk = NaN"
    by simp
  with t z l show ?thesis
    using reaches_pipeline_demo reaches_pipeline_empty_source by blast
qed

text \<open>
  Claim C4, counterexample to the claim as stated (a zero total is caught by a guard): with
  a source cloud of zero points the program sets the overlap to NaN, calculates the second
  registration and goes on to the merge.
\<close>

theorem division_by_zero_not_guarded:
  "number_of_points_valid empty_source_sdk (MilPointCloud eSource) = 0 \<and>
   keep [KOverlap, KCalculate, KMerge] (trace (MosMain empty_source_sdk)) =
     [Proc (M3dregControl M_ALL (M_OVERLAP (Finite 95))),
      Proc (M3dregCalculate [MilCroppedPointCloud 0, MilCroppedPointCloud 1]),
      Proc (M3dregControl M_ALL (M_OVERLAP NaN)),
      Proc (M3dregCalculate [MilCroppedPointCloud 0, MilCroppedPointCloud 1]),
      Proc (M3dregMerge MilRegistrationResult [MilPointCloud 0, MilPointCloud 1]
              (MilPointCloud eStitched))]"
proof -
  have z: "number_of_points_valid empty_source_sdk (MilPointCloud eSource) = 0"
    "stat_number empty_source_sdk (MilPointCloud eSource) refinement_box = 0"
    by (simp_all add: empty_source_sdk_def)
  then have "FullModelOverlap empty_source_sdk = NaN"
    by (simp add: FullModelOverlap_zero_total)
  then show ?thesis
    using z
    by (simp add: keep_trace_reaches [OF reaches_pipeline_empty_source] keep_show_inputs
        kind_report_status stage_defs upt_two double_constants)
qed

subsection \<open>The clouds of the two registrations\<close>

text \<open>
  Claim C5, the program at the sample run. Both registrations are calculated on the array
  \<^verbatim>\<open>MilCroppedPointCloud\<close>: the first on the clouds cropped by the first box, the second
  on the clouds cropped again by the second box, and not on the full clouds
  \<^verbatim>\<open>MilPointCloud\<close>, although the comment of line 264 says "Use the full point clouds".
  The location set before the second registration is read from the registration result
  when exactly one registration has been calculated, so the second registration is seeded
  with the first.
\<close>

theorem second_registration_on_cropped_clouds:
  "keep [KBox, KCrop, KCalculate, KSetLocation] (trace (MosMain demo_sdk)) =
     [Proc (M3dgeoBox initial_box),
      Proc (M3dimCrop (MilPointCloud 0) (MilCroppedPointCloud 0)),
      Proc (M3dimCrop (MilPointCloud 1) (MilCroppedPointCloud 1)),
      Proc (M3dregCalculate [MilCroppedPointCloud 0, MilCroppedPointCloud 1]),
      Proc (M3dgeoBox refinement_box),
      Proc (M3dimCrop (MilPointCloud 0) (MilCroppedPointCloud 0)),
      Proc (M3dimCrop (MilPointCloud 1) (MilCroppedPointCloud 1)),
      Proc (M3dregSetLocation eTarget eSource MilRegistrationResult),
      Proc (M3dregCalculate [MilCroppedPointCloud 0, MilCroppedPointCloud 1])] \<and>
   location_reads 0 (trace (MosMain demo_sdk)) = [1]"
proof -
  have "location_reads 0 (trace (MosMain demo_sdk)) = [1]"
    by (simp add: MosMain_reaches [OF reaches_pipeline_demo] all_stage_defs)
      (simp add: demo_sdk_def)
  then show ?thesis
    by (simp add: keep_trace_reaches [OF reaches_pipeline_demo] keep_show_inputs
        kind_report_status stage_defs)
qed

subsection \<open>The controls of the registration context\<close>

text \<open>
  Claim C6, as amended. The decimation steps, the subsampling switch, the maximum number of
  iterations, the relative RMS threshold and the error metric are each set once, before
  the first crop, and not again. The overlap is set twice: to 95 after the first crops and
  before the pre-registration, and to the overlap of the full model between the two
  registrations, where the pre-registration location is set too. No call of the program
  sets a grid size.
\<close>

theorem context_controls_in_order:
  assumes "reaches_pipeline s"
  shows "keep [KControl, KOverlap, KCrop, KCalculate, KSetLocation] (trace (MosMain s)) =
     [Proc (M3dimControl M_SIZE_X DECIMATION_STEP),
      Proc (M3dimControl M_SIZE_Y DECIMATION_STEP),
      Proc (M3dregControl M_DEFAULT (M_SUBSAMPLE True)),
      Proc (M3dregControl M_DEFAULT (M_MAX_ITERATIONS MAX_ITERATIONS)),
      Proc (M3dregControl M_DEFAULT (M_RMS_ERROR_RELATIVE_THRESHOLD RMS_ERROR_RELATIVE_THRESHOLD)),
      Proc (M3dregControl M_DEFAULT (M_ERROR_MINIMIZATION_METRIC ERROR_MINIMIZATION_METRIC)),
      Proc (M3dimCrop (MilPointCloud 0) (MilCroppedPointCloud 0)),
      Proc (M3dimCrop (MilPointCloud 1) (MilCroppedPointCloud 1)),
      Proc (M3dregControl M_ALL (M_OVERLAP (Finite OVERLAP))),
      Proc (M3dregCalculate MilCroppedPointCloud_array),
      Proc (M3dimCrop (MilPointCloud 0) (MilCroppedPointCloud 0)),
      Proc (M3dimCrop (MilPointCloud 1) (MilCroppedPointCloud 1)),
      Proc (M3dregControl M_ALL (M_OVERLAP (FullModelOverlap s))),
      Proc (M3dregSetLocation eTarget eSource MilRegistrationResult),
      Proc (M3dregCalculate MilCroppedPointCloud_array)]"
  by (simp add: keep_trace_reaches [OF assms] keep_show_inputs kind_report_status stage_defs)

text \<open>Claim C6, witness: the sample run.\<close>

theorem context_controls_in_order_witness:
  "reaches_pipeline demo_sdk \<and>
   keep [KControl, KOverlap, KCrop, KCalculate, KSetLocation] (trace (MosMain demo_sdk)) =
     [Proc (M3dimControl M_SIZE_X DECIMATION_STEP),
      Proc (M3dimControl M_SIZE_Y DECIMATION_STEP),
      Proc (M3dregControl M_DEFAULT (M_SUBSAMPLE True)),
      Proc (M3dregControl M_DEFAULT (M_MAX_ITERATIONS MAX_ITERATIONS)),
      Proc (M3dregControl M_DEFAULT (M_RMS_ERROR_RELATIVE_THRESHOLD RMS_ERROR_RELATIVE_THRESHOLD)),
      Proc (M3dregControl M_DEFAULT (M_ERROR_MINIMIZATION_METRIC ERROR_MINIMIZATION_METRIC)),
      Proc (M3dimCrop (MilPointCloud 0) (MilCroppedPointCloud 0)),
      Proc (M3dimCrop (MilPointCloud 1) (MilCroppedPointCloud 1)),
      Proc (M3dregControl M_ALL (M_OVERLAP (Finite OVERLAP))),
      Proc (M3dregCalculate MilCroppedPointCloud_array),
      Proc (M3dimCrop (MilPointCloud 0) (MilCroppedPointCloud 0)),
      Proc (M3dimCrop (MilPointCloud 1) (MilCroppedPointCloud 1)),
      Proc (M3dregControl M_ALL (M_OVERLAP (FullModelOverlap demo_sdk))),
      Proc (M3dregSetLocation eTarget eSource MilRegistrationResult),
      Proc (M3dregCalculate MilCroppedPointCloud_array)]"
  using reaches_pipeline_demo context_controls_in_order [OF reaches_pipeline_demo]
  by simp

text \<open>
  Claim C6, counterexample to the claim as stated (no parameter is modified between the
  stages): in the sample run the overlap is 95 for the first registration and is set to 19
  before the second.
\<close>

theorem overlap_set_twice:
  "keep [KOverlap, KCalculate] (trace (MosMain demo_sdk)) =
     [Proc (M3dregControl M_ALL (M_OVERLAP (Finite 95))),
      Proc (M3dregCalculate [MilCroppedPointCloud 0, MilCroppedPointCloud 1]),
      Proc (M3dregControl M_ALL (M_OVERLAP (Finite 19))),
      Proc (M3dregCalculate [MilCroppedPointCloud 0, MilCroppedPointCloud 1])]"
proof -
  show ?thesis
    by (simp add: keep_trace_reaches [OF reaches_pipeline_demo] keep_show_inputs
        kind_report_status stage_defs double_constants FullModelOverlap_demo)
qed

subsection \<open>A display that cannot be allocated\<close>

text \<open>
  Claim C9. In every run in which the allocation of one of the three displays fails (such
  a run has passed the file check), the last three calls are the message that the system
  does not support the 3D display, the wait for a key and \<^verbatim>\<open>exit(0)\<close>; the exit status
  is 0; and no crop, registration or merge call has been made.
\<close>

theorem display_failure_exits_before_pipeline:
  assumes "file_exists s (FILE_SOURCE_POINT_CLOUD s 0)"
    and "\<exists>d < NB_DISPLAY. disp_alloc s d = 0"
  shows "exit_code (MosMain s) = 0 \<and>
     take 3 (rev (trace (MosMain s))) =
       [Os (Exit 0), Os MosGetch,
        Os (MosPrintf ''The current system does not support the 3D display. Press any key to exit.'' [])] \<and>
     keep [KCrop, KCalculate, KMerge] (trace (MosMain s)) = []"
proof -
  from assms(2) obtain d where "d \<in> set [0..<NB_DISPLAY]" "disp_alloc s d = 0"
    by auto
  from init_displays_fail [OF this] obtain es where
    es: "init_displays s [0..<NB_DISPLAY] =
        (es @ [Os (MosPrintf ''The current system does not support the 3D display. Press any key to exit.'' []),
             Os MosGetch, Os (Exit 0)], None)" "\<forall>e \<in> set es. kind_of e = KOther"
    by blast
  have tr: "MosMain s = \<lparr>trace = (PrintHeader
        @ [Os MappAlloc, Os (MappFileOperation (FILE_SOURCE_POINT_CLOUD s 0))]
        @ allocate_and_restore s @ es)
        @ [Os (MosPrintf ''The current system does not support the 3D display. Press any key to exit.'' []),
             Os MosGetch, Os (Exit 0)], exit_code = 0\<rparr>"
    using assms(1) es(1) by (simp add: MosMain_def CheckForRequiredMILFile_def)
  have "\<forall>e \<in> set (PrintHeader
        @ [Os MappAlloc, Os (MappFileOperation (FILE_SOURCE_POINT_CLOUD s 0))]
        @ allocate_and_restore s @ es). kind_of e = KOther"
    using other_PrintHeader other_allocate_and_restore [of s] es(2) by auto
  then have "keep [KCrop, KCalculate, KMerge] (PrintHeader
        @ [Os MappAlloc, Os (MappFileOperation (FILE_SOURCE_POINT_CLOUD s 0))]
        @ allocate_and_restore s @ es) = []"
    by (rule keep_all_other) simp
  then show ?thesis
    unfolding tr by (simp del: append_assoc)
qed

text \<open>Claim C9, witness: a run whose second display cannot be allocated.\<close>

theorem display_failure_exits_before_pipeline_witness:
  "file_exists no_display_sdk (FILE_SOURCE_POINT_CLOUD no_display_sdk 0) \<and>
   (\<exists>d < NB_DISPLAY. disp_alloc no_display_sdk d = 0) \<and>
   exit_code (MosMain no_display_sdk) = 0 \<and>
   take 3 (rev (trace (MosMain no_display_sdk))) =
       [Os (Exit 0), Os MosGetch,
        Os (MosPrintf ''The current system does not support the 3D display. Press any key to exit.'' [])] \<and>
   keep [KCrop, KCalculate, KMerge] (trace (MosMain no_display_sdk)) = []"
  using no_display_hyps display_failure_exits_before_pipeline [OF no_display_hyps]
  by simp

section \<open>Properties of the crop and the merge of the specification\<close>

subsection \<open>Crop\<close>

text \<open>
  Claim C8, on the crop modelled from the specification. For every cloud and every box the
  cropped cloud holds exactly the points of the cloud whose position is inside the box or
  on its boundary, each as many times as the cloud holds it, and cropping the result again
  by the same box changes nothing.
\<close>

theorem Crop_exact_and_idempotent:
  "(\<forall>p. count_list (Crop C B) p = (if inside_box B (pt_position p) then count_list C p else 0)) \<and>
   set (Crop C B) = {p \<in> set C. inside_box B (pt_position p)} \<and>
   Crop (Crop C B) B = Crop C B"
  by (simp add: Crop_def count_list_filter)

text \<open>
  Claim C8, at the sample cloud and the second box of the program: the point (0, 20, 33)
  lies on the boundary in Y and in Z and is kept, twice since the cloud holds it twice;
  the point (0, 21, 0) is outside and dropped.
\<close>

theorem Crop_exact_and_idempotent_witness:
  "Crop demo_cloud refinement_box =
     [\<lparr>pt_position = (0, 20, 33), pt_attribute = None\<rparr>,
      \<lparr>pt_position = (85, - 18, - 33), pt_attribute = None\<rparr>,
      \<lparr>pt_position = (0, 20, 33), pt_attribute = None\<rparr>] \<and>
   count_list (Crop demo_cloud refinement_box) \<lparr>pt_position = (0, 20, 33), pt_attribute = None\<rparr> = 2 \<and>
   count_list (Crop demo_cloud refinement_box)
     \<lparr>pt_position = (0, 21, 0), pt_attribute = Some (M_RGB888 1 2 3)\<rparr> = 0 \<and>
   Crop (Crop demo_cloud refinement_box) refinement_box = Crop demo_cloud refinement_box"
proof -
  have c: "Crop demo_cloud refinement_box =
     [\<lparr>pt_position = (0, 20, 33), pt_attribute = None\<rparr>,
      \<lparr>pt_position = (85, - 18, - 33), pt_attribute = None\<rparr>,
      \<lparr>pt_position = (0, 20, 33), pt_attribute = None\<rparr>]"
    by (simp add: Crop_def demo_cloud_def inside_box_def box_dims box_centres)
  show ?thesis
    using c Crop_exact_and_idempotent [of demo_cloud refinement_box]
    by simp
qed

subsection \<open>Merge\<close>

text \<open>
  Claim C7, on the merge modelled from the specification. For every fixed cloud, every
  moving cloud and every registration result whose status is neither
  \<^verbatim>\<open>NotInitialized\<close> nor \<^verbatim>\<open>NotEnoughPointPairs\<close>, the merge returns a cloud, and its number
  of points is the number of points of the fixed cloud plus that of the moving cloud.
\<close>

theorem Merge_point_count:
  assumes "res_status r \<noteq> NotInitialized" and "res_status r \<noteq> NotEnoughPointPairs"
  shows "\<exists>out. Merge r fixedCloud movingCloud = Inr out \<and>
     length out = length fixedCloud + length movingCloud"
  using assms by (simp add: Merge_def)

text \<open>
  Claim C7, witness: the sample cloud merged with itself under the identity transform.
  Every point of the moving cloud coincides with a point of the fixed one, and the result
  has 8 points.
\<close>

theorem Merge_point_count_witness:
  "res_status demo_result \<noteq> NotInitialized \<and> res_status demo_result \<noteq> NotEnoughPointPairs \<and>
   (\<exists>out. Merge demo_result demo_cloud demo_cloud = Inr out \<and> length out = 8)"
proof -
  have a: "res_status demo_result \<noteq> NotInitialized"
    and b: "res_status demo_result \<noteq> NotEnoughPointPairs"
    by (simp_all add: demo_result_def)
  have "length demo_cloud = 4"
    by (simp add: demo_cloud_def)
  then show ?thesis
    using a b Merge_point_count [OF a b, of demo_cloud demo_cloud] by simp
qed

subsection \<open>The colours of the merged cloud\<close>

text \<open>
  Claim C10. In a run that reaches the registration, the calls between the status report
  and the merge are those of the colouring loop, and the merge is called on the two
  clouds the loop has changed. The buffer calls of the loop free the reflectance component
  of each input cloud, read the size of its range component, allocate a new reflectance
  component of three bands and clear it with RGB(135,165,235) for the reference cloud and
  RGB(75,125,215) for the target cloud. On the containers modelled from the specification
  their effect, from any store, is that the range component of every container is
  unchanged and the reflectance component of each input cloud is the new uniform buffer;
  and when the merge of the specification succeeds on the two clouds, the attributes of
  the merged cloud are the first colour for the points of the reference cloud followed by
  the second colour for the points of the target cloud.
\<close>

theorem reflectance_replaced_before_merge:
  "(reaches_pipeline s \<longrightarrow>
      (\<exists>pre post. trace (MosMain s) =
         pre @ report_status s @ add_color s (MilDisplay_ids s) @ merge_call # post)) \<and>
   merge_call =
     Proc (M3dregMerge MilRegistrationResult [MilPointCloud eSource, MilPointCloud eTarget]
             (MilPointCloud eStitched)) \<and>
   buf_calls (add_color s D) =
     [MbufFreeComponent (MilPointCloud 0) M_COMPONENT_REFLECTANCE,
      MbufInquireContainer (MilPointCloud 0) M_COMPONENT_RANGE M_SIZE_X,
      MbufInquireContainer (MilPointCloud 0) M_COMPONENT_RANGE M_SIZE_Y,
      MbufAllocComponent (MilPointCloud 0) 3 (range_size_x s 0) (range_size_y s 0)
        M_COMPONENT_REFLECTANCE,
      MbufClear (MilPointCloud 0) M_COMPONENT_REFLECTANCE (M_RGB888 135 165 235),
      MbufFreeComponent (MilPointCloud 1) M_COMPONENT_REFLECTANCE,
      MbufInquireContainer (MilPointCloud 1) M_COMPONENT_RANGE M_SIZE_X,
      MbufInquireContainer (MilPointCloud 1) M_COMPONENT_RANGE M_SIZE_Y,
      MbufAllocComponent (MilPointCloud 1) 3 (range_size_x s 1) (range_size_y s 1)
        M_COMPONENT_REFLECTANCE,
      MbufClear (MilPointCloud 1) M_COMPONENT_REFLECTANCE (M_RGB888 75 125 215)] \<and>
   (\<forall>c. run_buf disk (add_color s D) \<sigma> c M_COMPONENT_RANGE = \<sigma> c M_COMPONENT_RANGE) \<and>
   run_buf disk (add_color s D) \<sigma> (MilPointCloud eSource) M_COMPONENT_REFLECTANCE =
     Some \<lparr>buf_bands = 3, buf_size_x = range_size_x s eSource, buf_size_y = range_size_y s eSource,
           buf_pixels = Uniform (M_RGB888 135 165 235)\<rparr> \<and>
   run_buf disk (add_color s D) \<sigma> (MilPointCloud eTarget) M_COMPONENT_REFLECTANCE =
     Some \<lparr>buf_bands = 3, buf_size_x = range_size_x s eTarget, buf_size_y = range_size_y s eTarget,
           buf_pixels = Uniform (M_RGB888 75 125 215)\<rparr> \<and>
   (Merge r (cloud_points (run_buf disk (add_color s D) \<sigma> (MilPointCloud eSource)))
            (cloud_points (run_buf disk (add_color s D) \<sigma> (MilPointCloud eTarget))) = Inr out \<longrightarrow>
      map pt_attribute out =
        replicate (length (cloud_points (\<sigma> (MilPointCloud eSource)))) (Some (M_RGB888 135 165 235))
        @ replicate (length (cloud_points (\<sigma> (MilPointCloud eTarget)))) (Some (M_RGB888 75 125 215)))"
proof -
  let ?\<sigma> = "run_buf disk (add_color s D) \<sigma>"
  have r0: "?\<sigma> (MilPointCloud eSource) M_COMPONENT_REFLECTANCE =
     Some \<lparr>buf_bands = 3, buf_size_x = range_size_x s eSource, buf_size_y = range_size_y s eSource,
           buf_pixels = Uniform (M_RGB888 135 165 235)\<rparr>"
    using run_buf_add_color_reflectance [of 0 disk s D \<sigma>]
    by (simp add: eSource_def NB_POINT_CLOUD_def cloud_color_values)
  have r1: "?\<sigma> (MilPointCloud eTarget) M_COMPONENT_REFLECTANCE =
     Some \<lparr>buf_bands = 3, buf_size_x = range_size_x s eTarget, buf_size_y = range_size_y s eTarget,
           buf_pixels = Uniform (M_RGB888 75 125 215)\<rparr>"
    using run_buf_add_color_reflectance [of 1 disk s D \<sigma>]
    using cloud_color_values(2) by (simp add: eTarget_def NB_POINT_CLOUD_def)
  have n: "length (cloud_points (?\<sigma> c)) = length (cloud_points (\<sigma> c))" for c
    by (rule length_cloud_points) (rule run_buf_add_color_range)
  have a0: "map pt_attribute (cloud_points (?\<sigma> (MilPointCloud eSource))) =
      replicate (length (cloud_points (\<sigma> (MilPointCloud eSource)))) (Some (M_RGB888 135 165 235))"
    using cloud_points_uniform [where k = "?\<sigma> (MilPointCloud eSource)", OF r0] by (simp add: n)
  have a1: "map pt_attribute (cloud_points (?\<sigma> (MilPointCloud eTarget))) =
      replicate (length (cloud_points (\<sigma> (MilPointCloud eTarget)))) (Some (M_RGB888 75 125 215))"
    using cloud_points_uniform [where k = "?\<sigma> (MilPointCloud eTarget)", OF r1] by (simp add: n)
  have m: "Merge r (cloud_points (?\<sigma> (MilPointCloud eSource)))
            (cloud_points (?\<sigma> (MilPointCloud eTarget))) = Inr out \<longrightarrow>
      map pt_attribute out =
        replicate (length (cloud_points (\<sigma> (MilPointCloud eSource)))) (Some (M_RGB888 135 165 235))
        @ replicate (length (cloud_points (\<sigma> (MilPointCloud eTarget)))) (Some (M_RGB888 75 125 215))"
    using Merge_attributes a0 a1 by metis
  have c: "merge_call =
     Proc (M3dregMerge MilRegistrationResult [MilPointCloud eSource, MilPointCloud eTarget]
             (MilPointCloud eStitched))"
    by (simp add: merge_call_def upt_two eSource_def eTarget_def)
  show ?thesis
    using trace_around_merge [of s] c buf_calls_add_color [of s D]
      run_buf_add_color_range [of disk s D \<sigma>] r0 r1 m
    by blast
qed

text \<open>Claim C10, witness: the sample run on a store of two small clouds.\<close>

theorem reflectance_replaced_before_merge_witness:
  "reaches_pipeline demo_sdk \<and>
   Merge demo_result
     (cloud_points (run_buf empty_disk (add_color demo_sdk (MilDisplay_ids demo_sdk)) demo_store
        (MilPointCloud eSource)))
     (cloud_points (run_buf empty_disk (add_color demo_sdk (MilDisplay_ids demo_sdk)) demo_store
        (MilPointCloud eTarget))) = Inr demo_merged \<and>
   map pt_attribute demo_merged =
     replicate (length (cloud_points (demo_store (MilPointCloud eSource))))
       (Some (M_RGB888 135 165 235))
     @ replicate (length (cloud_points (demo_store (MilPointCloud eTarget))))
       (Some (M_RGB888 75 125 215)) \<and>
   run_buf empty_disk (add_color demo_sdk (MilDisplay_ids demo_sdk)) demo_store
     (MilPointCloud eSource) M_COMPONENT_RANGE = demo_store (MilPointCloud eSource) M_COMPONENT_RANGE \<and>
   run_buf empty_disk (add_color demo_sdk (MilDisplay_ids demo_sdk)) demo_store
     (MilPointCloud eSource) M_COMPONENT_REFLECTANCE =
     Some \<lparr>buf_bands = 3, buf_size_x = 640, buf_size_y = 480,
           buf_pixels = Uniform (M_RGB888 135 165 235)\<rparr>"
proof -
  have sz: "range_size_x demo_sdk eSource = 640" "range_size_y demo_sdk eSource = 480"
    by (simp_all add: demo_sdk_def)
  show ?thesis
    using reaches_pipeline_demo demo_merge sz
      reflectance_replaced_before_merge [where s = demo_sdk and disk = empty_disk
        and D = "MilDisplay_ids demo_sdk" and \<sigma> = demo_store and r = demo_result
        and out = demo_merged]
    by simp
qed

end
